theory Spec2Isabelle
  imports Complex_Main
begin

section \<open>The Pedalboard demo script (app.py)\<close>

text \<open>
  The script is one pass over the page: it reads the widgets, loads a clip, assembles a
  Pedalboard from the checkbox and slider state, renders it and shows the result. The
  libraries it drives (Streamlit, librosa, pedalboard, scipy, matplotlib, numpy) are not
  part of the repository. What they return is a parameter of the model; what the script
  asks of them is recorded, call by call and in program order, in a trace.
\<close>

subsection \<open>Values\<close>

text \<open>
  An audio buffer is the one-dimensional float array of \<^verbatim>\<open>librosa.load\<close> (mono is its
  default). Samples are finite numbers, taken as reals: rounding is not modelled. The
  non-finite values of numpy arise in the model only as results of a division.
\<close>

type_synonym audio = "real list"

datatype exn = Exception string

datatype npfloat = Finite real | PosInf | NegInf | NaN

text \<open>
  An int16 array holds one entry per sample; \<open>None\<close> stands for an entry whose value
  numpy leaves undefined (the cast of a value that is not a number or is out of range).
\<close>

datatype (discs_sels) ndarray = Float_array "real list" | Int16_array "int option list"

datatype virtualfile = BytesIO nat ndarray
  \<comment> \<open>an in-memory WAV file: the rate and the data handed to \<^verbatim>\<open>wavfile.write\<close>\<close>

datatype figure = Figure nat nat audio nat
  \<comment> \<open>figsize (width, height), and the waveform drawn on it with its rate\<close>

datatype uploaded_file = UploadedFile string

datatype source = Example string bool | Uploaded uploaded_file
  \<comment> \<open>\<^verbatim>\<open>librosa.example(name, hq=...)\<close>, or the file of the uploader\<close>

record compressor =
  threshold_db :: real
  ratio :: real
  attack_ms :: real
  release_ms :: real

record gain =
  gain_db :: real

record reverb =
  room_size :: real
  damping :: real
  wet_level :: real
  dry_level :: real
  width :: real
  freeze_mode :: real

text \<open>
  The eleven plugin classes the script imports. Eight of them are never constructed by
  the script, so their parameters are left out.
\<close>

datatype (discs_sels) effect =
    Compressor compressor
  | Gain gain
  | Reverb reverb
  | Convolution
  | Chorus
  | Distortion
  | HighpassFilter
  | LadderFilter
  | Limiter
  | LowpassFilter
  | Phaser

record pedalboard =
  plugins :: "effect list"
  board_sample_rate :: nat

subsection \<open>The trace of calls\<close>

datatype container = Main_page | In_sidebar | In_column nat | In_expander string

datatype (discs_sels) widget =
    Checkbox string bool
  | Markdown string
  | Subheader string
  | Caption string
  | Columns nat nat
  | File_uploader string "string list"
  | Pyplot figure
  | Audio virtualfile
  | Write string
  | Write_board pedalboard
  | Expander string
  | Warning string
  | Slider string real real real
  | Download_button string virtualfile string string

datatype (discs_sels) event =
    St container widget
  | Librosa_load source nat
  | Plt_subplots nat nat
  | Waveshow audio nat
  | Np_abs audio
  | Np_max audio
  | Np_int16 "npfloat list"
  | Wavfile_write nat ndarray
  | New_pedalboard "effect list" nat
  | New_plugin effect
  | Board_append effect
  | Board_call pedalboard audio

text \<open>
  A piece of the script yields the calls it made and then either the exception that ended
  it or its value. Sequencing stops at the first exception: the script has no
  \<^verbatim>\<open>try\<close> anywhere.
\<close>

type_synonym 'a script = "event list \<times> (exn + 'a)"

definition return :: "'a \<Rightarrow> 'a script" where
  "return v = ([], Inr v)"

definition andthen :: "'a script \<Rightarrow> ('a \<Rightarrow> 'b script) \<Rightarrow> 'b script" where
  "andthen m f =
     (case m of
        (t, Inl e) \<Rightarrow> (t, Inl e)
      | (t, Inr v) \<Rightarrow> (case f v of (t', r) \<Rightarrow> (t @ t', r)))"

definition lib_call :: "event \<Rightarrow> exn + 'a \<Rightarrow> 'a script" where
  "lib_call ev r = ([ev], r)"

definition st_call :: "container \<Rightarrow> widget \<Rightarrow> 'a \<Rightarrow> 'a script" where
  "st_call c w v = ([St c w], Inr v)"

subsection \<open>The libraries and the page, as parameters\<close>

text \<open>
  The calls that may raise: the load, the drawing of a waveform (librosa refuses a buffer
  it finds too short), the construction of a plugin from given parameters (pedalboard
  checks them) and the render. The other calls are taken to return.

  \<open>Compressor_raises\<close> tells, for the parameters handed to \<^verbatim>\<open>Compressor(...)\<close>, the
  exception the constructor raises, if any; a constructor that does not raise yields the
  plugin with those parameters. \<open>Compressor_default\<close> is \<^verbatim>\<open>Compressor()\<close>, the plugin built
  with the library's default arguments. Likewise for the other two classes.

  \<open>process\<close> is \<^verbatim>\<open>board(audio)\<close>. The call is handed the array itself, not a copy, so
  \<open>process\<close> gives, with the rendered audio, the contents it leaves in the array it was
  handed.
\<close>

record libs =
  librosa_load :: "source \<Rightarrow> nat \<Rightarrow> exn + audio \<times> nat"
  waveshow :: "audio \<Rightarrow> nat \<Rightarrow> exn + unit"
  process :: "pedalboard \<Rightarrow> audio \<Rightarrow> exn + audio \<times> audio"
  Compressor_raises :: "compressor \<Rightarrow> exn option"
  Gain_raises :: "gain \<Rightarrow> exn option"
  Reverb_raises :: "reverb \<Rightarrow> exn option"
  Compressor_default :: compressor
  Gain_default :: gain
  Reverb_default :: reverb

text \<open>
  What the widgets of the current page hand back: a widget is given its label and the
  arguments of the call, the default value among them.
\<close>

record streamlit =
  checkbox :: "string \<Rightarrow> bool \<Rightarrow> bool"
  slider :: "string \<Rightarrow> real \<Rightarrow> real \<Rightarrow> real \<Rightarrow> real"
  file_uploader :: "string \<Rightarrow> string list \<Rightarrow> uploaded_file option"

definition st_checkbox :: "streamlit \<Rightarrow> container \<Rightarrow> string \<Rightarrow> bool \<Rightarrow> bool script" where
  "st_checkbox st c label v = st_call c (Checkbox label v) (checkbox st label v)"

definition st_slider ::
  "streamlit \<Rightarrow> container \<Rightarrow> string \<Rightarrow> real \<Rightarrow> real \<Rightarrow> real \<Rightarrow> real script" where
  "st_slider st c label lo hi v = st_call c (Slider label lo hi v) (slider st label lo hi v)"

subsection \<open>\<^verbatim>\<open>_normalize_16_bit\<close>\<close>

text \<open>
  \<^verbatim>\<open>np.max\<close> of an empty array raises ValueError. Dividing by zero does not raise in
  numpy: it gives nan for 0/0 and an infinity otherwise (the divisor here is a maximum of
  absolute values, so a zero divisor is +0).
\<close>

definition np_max :: "audio \<Rightarrow> exn + real" where
  "np_max a = (if a = [] then Inl (Exception ''ValueError'') else Inr (Max (set a)))"

definition np_divide :: "real \<Rightarrow> real \<Rightarrow> npfloat" where
  "np_divide x y =
     (if y \<noteq> 0 then Finite (x / y)
      else if x = 0 then NaN
      else if 0 < x then PosInf else NegInf)"

fun np_multiply :: "npfloat \<Rightarrow> real \<Rightarrow> npfloat" where
  "np_multiply (Finite r) c = Finite (r * c)"
| "np_multiply PosInf c = (if 0 < c then PosInf else if c < 0 then NegInf else NaN)"
| "np_multiply NegInf c = (if 0 < c then NegInf else if c < 0 then PosInf else NaN)"
| "np_multiply NaN c = NaN"

definition trunc :: "real \<Rightarrow> int" where
  "trunc r = (if 0 \<le> r then \<lfloor>r\<rfloor> else \<lceil>r\<rceil>)"

fun np_int16 :: "npfloat \<Rightarrow> int option" where
  "np_int16 (Finite r) =
     (if - 32768 \<le> trunc r \<and> trunc r \<le> 32767 then Some (trunc r) else None)"
| "np_int16 PosInf = None"
| "np_int16 NegInf = None"
| "np_int16 NaN = None"

definition normalize_16_bit :: "audio \<Rightarrow> (int option list) script" where
  "normalize_16_bit audio_data =
     andthen (lib_call (Np_abs audio_data) (Inr (map abs audio_data))) (\<lambda>a.
     andthen (lib_call (Np_max a) (np_max a)) (\<lambda>m.
     andthen (return (map (\<lambda>x. np_multiply (np_multiply (np_divide x m) 32767) (9 / 10))
                          audio_data)) (\<lambda>scaled.
     lib_call (Np_int16 scaled) (Inr (map np_int16 scaled)))))"

subsection \<open>\<^verbatim>\<open>_audio_to_virtualfile\<close> and \<^verbatim>\<open>_plot_waveform\<close>\<close>

definition normalize_16_default :: bool where
  "normalize_16_default = False"

definition audio_to_virtualfile :: "audio \<Rightarrow> bool \<Rightarrow> virtualfile script" where
  "audio_to_virtualfile audio_data normalize_16 =
     andthen (if normalize_16
              then andthen (normalize_16_bit audio_data) (\<lambda>a. return (Int16_array a))
              else return (Float_array audio_data)) (\<lambda>audio_data.
     andthen (lib_call (Wavfile_write 44100 audio_data) (Inr ())) (\<lambda>_.
     return (BytesIO 44100 audio_data)))"

definition plot_waveform :: "libs \<Rightarrow> audio \<Rightarrow> nat \<Rightarrow> figure script" where
  "plot_waveform lib audio_data sample_rate =
     andthen (lib_call (Plt_subplots 14 5) (Inr ())) (\<lambda>_.
     andthen (lib_call (Waveshow audio_data sample_rate)
                (waveshow lib audio_data sample_rate)) (\<lambda>_.
     return (Figure 14 5 audio_data sample_rate)))"

subsection \<open>\<^verbatim>\<open>main\<close>: the sidebar checkboxes (lines 50 to 62)\<close>

record flags =
  enable_convolution :: bool
  enable_compressor :: bool
  enable_chorus :: bool
  enable_distortion :: bool
  enable_gain :: bool
  enable_hp :: bool
  enable_ld :: bool
  enable_limiter :: bool
  enable_lp :: bool
  enable_phaser :: bool
  enable_reverb :: bool

definition sidebar_checkboxes :: "streamlit \<Rightarrow> flags script" where
  "sidebar_checkboxes st =
     andthen (st_checkbox st In_sidebar ''Enable Convolution'' False) (\<lambda>convolution.
     andthen (st_checkbox st In_sidebar ''Enable Compressor'' False) (\<lambda>compressor.
     andthen (st_checkbox st In_sidebar ''Enable Chorus'' False) (\<lambda>chorus.
     andthen (st_checkbox st In_sidebar ''Enable Distortion'' False) (\<lambda>distortion.
     andthen (st_checkbox st In_sidebar ''Enable Gain'' True) (\<lambda>gain.
     andthen (st_checkbox st In_sidebar ''Enable Highpass Filter'' False) (\<lambda>hp.
     andthen (st_checkbox st In_sidebar ''Enable Ladder Filter'' False) (\<lambda>ld.
     andthen (st_checkbox st In_sidebar ''Enable Limiter'' False) (\<lambda>limiter.
     andthen (st_checkbox st In_sidebar ''Enable Lowpass Filter'' False) (\<lambda>lp.
     andthen (st_checkbox st In_sidebar ''Enable Phaser'' False) (\<lambda>phaser.
     andthen (st_checkbox st In_sidebar ''Enable Reverb'' False) (\<lambda>reverb.
     return \<lparr>enable_convolution = convolution, enable_compressor = compressor,
       enable_chorus = chorus, enable_distortion = distortion, enable_gain = gain,
       enable_hp = hp, enable_ld = ld, enable_limiter = limiter, enable_lp = lp,
       enable_phaser = phaser, enable_reverb = reverb\<rparr>)))))))))))"

subsection \<open>\<^verbatim>\<open>main\<close>: import file (lines 64 to 84)\<close>

definition import_file :: "libs \<Rightarrow> streamlit \<Rightarrow> (audio \<times> nat) script" where
  "import_file lib st =
     andthen (st_call Main_page (Markdown
        ''\<newline>Testing [Spotify Pedalboard](https://github.com/spotify/pedalboard).\<newline>    '')
        ()) (\<lambda>_.
     andthen (st_call Main_page (Subheader '':file_folder: Import music file'') ()) (\<lambda>_.
     andthen (st_call Main_page (Caption ''...or use the sample example'') ()) (\<lambda>_.
     andthen (st_call Main_page (Columns 2 1) (In_column 1, In_column 2)) (\<lambda>(c1, c2).
     andthen (st_call c1 (File_uploader ''Upload wav file'' [''wav''])
                (file_uploader st ''Upload wav file'' [''wav''])) (\<lambda>uploaded_file.
     andthen (case uploaded_file of
                None \<Rightarrow>
                  lib_call (Librosa_load (Example ''vibeace'' True) 44100)
                    (librosa_load lib (Example ''vibeace'' True) 44100)
              | Some f \<Rightarrow>
                  lib_call (Librosa_load (Uploaded f) 44100)
                    (librosa_load lib (Uploaded f) 44100)) (\<lambda>(audio, sample_rate).
     andthen (plot_waveform lib audio sample_rate) (\<lambda>fig.
     andthen (st_call Main_page (Pyplot fig) ()) (\<lambda>_.
     andthen (st_call c2 (Caption ''Currently loaded audio file'') ()) (\<lambda>_.
     andthen (audio_to_virtualfile audio normalize_16_default) (\<lambda>virtualfile.
     andthen (st_call c2 (Audio virtualfile) ()) (\<lambda>_.
     andthen (st_call Main_page (Write ''---'') ()) (\<lambda>_.
     return (audio, sample_rate)))))))))))))"

subsection \<open>\<^verbatim>\<open>main\<close>: configure effects (lines 86 to 189)\<close>

text \<open>
  The eight blocks that only warn have the same shape in the script; they differ in the
  label of the expander.
\<close>

definition not_yet_implemented :: "bool \<Rightarrow> string \<Rightarrow> unit script" where
  "not_yet_implemented enable label =
     (if enable
      then andthen (st_call Main_page (Expander label) ()) (\<lambda>_.
           st_call (In_expander label) (Warning ''Not yet implemented'') ())
      else return ())"

definition new_Compressor :: "libs \<Rightarrow> compressor \<Rightarrow> effect script" where
  "new_Compressor lib c =
     lib_call (New_plugin (Compressor c))
       (case Compressor_raises lib c of Some e \<Rightarrow> Inl e | None \<Rightarrow> Inr (Compressor c))"

definition new_Gain :: "libs \<Rightarrow> gain \<Rightarrow> effect script" where
  "new_Gain lib g =
     lib_call (New_plugin (Gain g))
       (case Gain_raises lib g of Some e \<Rightarrow> Inl e | None \<Rightarrow> Inr (Gain g))"

definition new_Reverb :: "libs \<Rightarrow> reverb \<Rightarrow> effect script" where
  "new_Reverb lib v =
     lib_call (New_plugin (Reverb v))
       (case Reverb_raises lib v of Some e \<Rightarrow> Inl e | None \<Rightarrow> Inr (Reverb v))"

definition board_append :: "pedalboard \<Rightarrow> effect \<Rightarrow> pedalboard script" where
  "board_append board e =
     lib_call (Board_append e) (Inr (board\<lparr>plugins := plugins board @ [e]\<rparr>))"

definition compressor_block :: "libs \<Rightarrow> streamlit \<Rightarrow> bool \<Rightarrow> pedalboard \<Rightarrow> pedalboard script" where
  "compressor_block lib st enable board =
     (if enable
      then andthen (st_call Main_page (Expander ''Compressor'') (In_expander ''Compressor'')) (\<lambda>ex.
           andthen (st_slider st ex ''Threshold in dB'' (- 24) 24
                      (threshold_db (Compressor_default lib))) (\<lambda>selected_compressor_threshold_db.
           andthen (st_slider st ex ''Ratio'' 0 10
                      (ratio (Compressor_default lib))) (\<lambda>selected_compressor_ratio.
           andthen (st_slider st ex ''Attack in ms'' (1 / 10) 100
                      (attack_ms (Compressor_default lib))) (\<lambda>selected_compressor_attack_ms.
           andthen (st_slider st ex ''Release in ms'' (1 / 10) 1000
                      (release_ms (Compressor_default lib))) (\<lambda>selected_compressor_release_ms.
           andthen (new_Compressor lib
                      \<lparr>threshold_db = selected_compressor_threshold_db,
                       ratio = selected_compressor_ratio,
                       attack_ms = selected_compressor_attack_ms,
                       release_ms = selected_compressor_release_ms\<rparr>) (\<lambda>plugin.
           board_append board plugin))))))
      else return board)"

definition gain_block :: "libs \<Rightarrow> streamlit \<Rightarrow> bool \<Rightarrow> pedalboard \<Rightarrow> pedalboard script" where
  "gain_block lib st enable board =
     (if enable
      then andthen (st_call Main_page (Expander ''Gain'') (In_expander ''Gain'')) (\<lambda>ex.
           andthen (st_slider st ex ''Gain in dB'' (- 24) 24
                      (gain_db (Gain_default lib))) (\<lambda>selected_gain_db.
           andthen (new_Gain lib \<lparr>gain_db = selected_gain_db\<rparr>) (\<lambda>plugin.
           board_append board plugin)))
      else return board)"

definition reverb_block :: "libs \<Rightarrow> streamlit \<Rightarrow> bool \<Rightarrow> pedalboard \<Rightarrow> pedalboard script" where
  "reverb_block lib st enable board =
     (if enable
      then andthen (st_call Main_page (Expander ''Reverb'') (In_expander ''Reverb'')) (\<lambda>ex.
           andthen (st_slider st ex ''Room Size'' 0 1
                      (room_size (Reverb_default lib))) (\<lambda>selected_reverb_room_size.
           andthen (st_slider st ex ''Damping'' 0 1
                      (damping (Reverb_default lib))) (\<lambda>selected_reverb_damping.
           andthen (st_slider st ex ''Wet Level'' 0 1
                      (wet_level (Reverb_default lib))) (\<lambda>selected_reverb_wet_level.
           andthen (st_slider st ex ''Dry Level'' 0 1
                      (dry_level (Reverb_default lib))) (\<lambda>selected_reverb_dry_level.
           andthen (st_slider st ex ''Width'' 0 1
                      (width (Reverb_default lib))) (\<lambda>selected_reverb_width.
           andthen (st_slider st ex ''Freeze mode'' 0 1
                      (freeze_mode (Reverb_default lib))) (\<lambda>selected_reverb_freeze_mode.
           andthen (new_Reverb lib
                      \<lparr>room_size = selected_reverb_room_size,
                       damping = selected_reverb_damping,
                       wet_level = selected_reverb_wet_level,
                       dry_level = selected_reverb_dry_level,
                       width = selected_reverb_width,
                       freeze_mode = selected_reverb_freeze_mode\<rparr>) (\<lambda>plugin.
           board_append board plugin))))))))
      else return board)"

definition configure_effects ::
  "libs \<Rightarrow> streamlit \<Rightarrow> flags \<Rightarrow> nat \<Rightarrow> pedalboard script" where
  "configure_effects lib st fl sample_rate =
     andthen (st_call Main_page (Subheader '':hammer_and_wrench: Configure effects'') ()) (\<lambda>_.
     andthen (lib_call (New_pedalboard [] sample_rate)
                (Inr \<lparr>plugins = [], board_sample_rate = sample_rate\<rparr>)) (\<lambda>board.
     andthen (not_yet_implemented (enable_convolution fl) ''Convolution'') (\<lambda>_.
     andthen (compressor_block lib st (enable_compressor fl) board) (\<lambda>board.
     andthen (not_yet_implemented (enable_chorus fl) ''Chorus'') (\<lambda>_.
     andthen (not_yet_implemented (enable_distortion fl) ''Distortion'') (\<lambda>_.
     andthen (gain_block lib st (enable_gain fl) board) (\<lambda>board.
     andthen (not_yet_implemented (enable_hp fl) ''Highpass Filter'') (\<lambda>_.
     andthen (not_yet_implemented (enable_ld fl) ''Ladder Filter'') (\<lambda>_.
     andthen (not_yet_implemented (enable_limiter fl) ''Limiter'') (\<lambda>_.
     andthen (not_yet_implemented (enable_lp fl) ''Lowpass Filter'') (\<lambda>_.
     andthen (not_yet_implemented (enable_phaser fl) ''Phaser'') (\<lambda>_.
     andthen (reverb_block lib st (enable_reverb fl) board) (\<lambda>board.
     andthen (st_call In_sidebar (Subheader ''Debug'') ()) (\<lambda>_.
     andthen (st_call In_sidebar (Write_board board) ()) (\<lambda>_.
     andthen (st_call Main_page (Write ''---'') ()) (\<lambda>_.
     return board))))))))))))))))"

subsection \<open>\<^verbatim>\<open>main\<close>: Pedalboard render (lines 191 to 201)\<close>

text \<open>
  After \<^verbatim>\<open>effected = board(audio)\<close> the variable \<^verbatim>\<open>audio\<close> still names the array that was
  handed to the call; what it holds from then on is what the call left there.
\<close>

definition pedalboard_render ::
  "libs \<Rightarrow> pedalboard \<Rightarrow> audio \<Rightarrow> nat \<Rightarrow> (audio \<times> audio) script" where
  "pedalboard_render lib board audio sample_rate =
     andthen (st_call Main_page (Subheader '':headphones: Pedalboard output'') ()) (\<lambda>_.
     andthen (lib_call (Board_call board audio) (process lib board audio)) (\<lambda>(effected, audio).
     andthen (plot_waveform lib effected sample_rate) (\<lambda>fig.
     andthen (st_call Main_page (Pyplot fig) ()) (\<lambda>_.
     andthen (audio_to_virtualfile effected normalize_16_default) (\<lambda>virtualfile.
     andthen (st_call Main_page (Audio virtualfile) ()) (\<lambda>_.
     andthen (audio_to_virtualfile effected normalize_16_default) (\<lambda>virtualfile.
     andthen (st_call Main_page
                (Download_button ''Dowload effected'' virtualfile ''output.wav'' ''audio/wave'')
                ()) (\<lambda>_.
     return (effected, audio)))))))))"

subsection \<open>\<^verbatim>\<open>main\<close>\<close>

text \<open>
  The phases in sequence. (The lines after \<^verbatim>\<open>main\<close> in the file set the page title and
  call it.) The script's \<^verbatim>\<open>main\<close> returns nothing. The model returns the local variables
  it holds when it is done, so that what became of them can be stated.
\<close>

record locals =
  loc_audio :: audio
  loc_sample_rate :: nat
  loc_board :: pedalboard
  loc_effected :: audio

definition after_import ::
  "libs \<Rightarrow> streamlit \<Rightarrow> flags \<Rightarrow> audio \<Rightarrow> nat \<Rightarrow> locals script" where
  "after_import lib st fl audio sample_rate =
     andthen (configure_effects lib st fl sample_rate) (\<lambda>board.
     andthen (pedalboard_render lib board audio sample_rate) (\<lambda>(effected, audio).
     return \<lparr>loc_audio = audio, loc_sample_rate = sample_rate, loc_board = board,
       loc_effected = effected\<rparr>))"

definition main :: "libs \<Rightarrow> streamlit \<Rightarrow> locals script" where
  "main lib st =
     andthen (sidebar_checkboxes st) (\<lambda>fl.
     andthen (import_file lib st) (\<lambda>(audio, sample_rate).
     after_import lib st fl audio sample_rate))"

section \<open>The traces in closed form\<close>

text \<open>
  The calls of each part of the script when no call raises, written out as lists, and the
  flags and the board they leave behind. The lemmas of the next section show that the
  script makes exactly these calls, and where it stops when a call raises.
\<close>

definition read_flags :: "streamlit \<Rightarrow> flags" where
  "read_flags st =
     \<lparr>enable_convolution = checkbox st ''Enable Convolution'' False,
      enable_compressor = checkbox st ''Enable Compressor'' False,
      enable_chorus = checkbox st ''Enable Chorus'' False,
      enable_distortion = checkbox st ''Enable Distortion'' False,
      enable_gain = checkbox st ''Enable Gain'' True,
      enable_hp = checkbox st ''Enable Highpass Filter'' False,
      enable_ld = checkbox st ''Enable Ladder Filter'' False,
      enable_limiter = checkbox st ''Enable Limiter'' False,
      enable_lp = checkbox st ''Enable Lowpass Filter'' False,
      enable_phaser = checkbox st ''Enable Phaser'' False,
      enable_reverb = checkbox st ''Enable Reverb'' False\<rparr>"

definition checkbox_trace :: "event list" where
  "checkbox_trace =
     [St In_sidebar (Checkbox ''Enable Convolution'' False),
      St In_sidebar (Checkbox ''Enable Compressor'' False),
      St In_sidebar (Checkbox ''Enable Chorus'' False),
      St In_sidebar (Checkbox ''Enable Distortion'' False),
      St In_sidebar (Checkbox ''Enable Gain'' True),
      St In_sidebar (Checkbox ''Enable Highpass Filter'' False),
      St In_sidebar (Checkbox ''Enable Ladder Filter'' False),
      St In_sidebar (Checkbox ''Enable Limiter'' False),
      St In_sidebar (Checkbox ''Enable Lowpass Filter'' False),
      St In_sidebar (Checkbox ''Enable Phaser'' False),
      St In_sidebar (Checkbox ''Enable Reverb'' False)]"

definition chosen_source :: "streamlit \<Rightarrow> source" where
  "chosen_source st =
     (case file_uploader st ''Upload wav file'' [''wav''] of
        None \<Rightarrow> Example ''vibeace'' True
      | Some f \<Rightarrow> Uploaded f)"

definition import_trace :: "streamlit \<Rightarrow> event list" where
  "import_trace st =
     [St Main_page (Markdown
        ''\<newline>Testing [Spotify Pedalboard](https://github.com/spotify/pedalboard).\<newline>    ''),
      St Main_page (Subheader '':file_folder: Import music file''),
      St Main_page (Caption ''...or use the sample example''),
      St Main_page (Columns 2 1),
      St (In_column 1) (File_uploader ''Upload wav file'' [''wav'']),
      Librosa_load (chosen_source st) 44100]"

definition plot_trace :: "audio \<Rightarrow> nat \<Rightarrow> event list" where
  "plot_trace a r = [Plt_subplots 14 5, Waveshow a r]"

definition loaded_trace :: "audio \<Rightarrow> nat \<Rightarrow> event list" where
  "loaded_trace a r =
     [Plt_subplots 14 5,
      Waveshow a r,
      St Main_page (Pyplot (Figure 14 5 a r)),
      St (In_column 2) (Caption ''Currently loaded audio file''),
      Wavfile_write 44100 (Float_array a),
      St (In_column 2) (Audio (BytesIO 44100 (Float_array a))),
      St Main_page (Write ''---'')]"

definition selected_compressor :: "libs \<Rightarrow> streamlit \<Rightarrow> compressor" where
  "selected_compressor lib st =
       \<lparr>threshold_db =
          slider st ''Threshold in dB'' (- 24) 24 (threshold_db (Compressor_default lib)),
        ratio = slider st ''Ratio'' 0 10 (ratio (Compressor_default lib)),
        attack_ms = slider st ''Attack in ms'' (1 / 10) 100 (attack_ms (Compressor_default lib)),
        release_ms =
          slider st ''Release in ms'' (1 / 10) 1000 (release_ms (Compressor_default lib))\<rparr>"

definition selected_gain :: "libs \<Rightarrow> streamlit \<Rightarrow> gain" where
  "selected_gain lib st =
     \<lparr>gain_db = slider st ''Gain in dB'' (- 24) 24 (gain_db (Gain_default lib))\<rparr>"

definition selected_reverb :: "libs \<Rightarrow> streamlit \<Rightarrow> reverb" where
  "selected_reverb lib st =
       \<lparr>room_size = slider st ''Room Size'' 0 1 (room_size (Reverb_default lib)),
        damping = slider st ''Damping'' 0 1 (damping (Reverb_default lib)),
        wet_level = slider st ''Wet Level'' 0 1 (wet_level (Reverb_default lib)),
        dry_level = slider st ''Dry Level'' 0 1 (dry_level (Reverb_default lib)),
        width = slider st ''Width'' 0 1 (width (Reverb_default lib)),
        freeze_mode = slider st ''Freeze mode'' 0 1 (freeze_mode (Reverb_default lib))\<rparr>"

definition warning_trace :: "bool \<Rightarrow> string \<Rightarrow> event list" where
  "warning_trace enable label =
     (if enable
      then [St Main_page (Expander label),
            St (In_expander label) (Warning ''Not yet implemented'')]
      else [])"

definition compressor_trace :: "libs \<Rightarrow> streamlit \<Rightarrow> bool \<Rightarrow> event list" where
  "compressor_trace lib st enable =
     (if enable
      then [St Main_page (Expander ''Compressor''),
            St (In_expander ''Compressor'')
              (Slider ''Threshold in dB'' (- 24) 24 (threshold_db (Compressor_default lib))),
            St (In_expander ''Compressor'')
              (Slider ''Ratio'' 0 10 (ratio (Compressor_default lib))),
            St (In_expander ''Compressor'')
              (Slider ''Attack in ms'' (1 / 10) 100 (attack_ms (Compressor_default lib))),
            St (In_expander ''Compressor'')
              (Slider ''Release in ms'' (1 / 10) 1000 (release_ms (Compressor_default lib))),
            New_plugin (Compressor (selected_compressor lib st)),
            Board_append (Compressor (selected_compressor lib st))]
      else [])"

definition gain_trace :: "libs \<Rightarrow> streamlit \<Rightarrow> bool \<Rightarrow> event list" where
  "gain_trace lib st enable =
     (if enable
      then [St Main_page (Expander ''Gain''),
            St (In_expander ''Gain'')
              (Slider ''Gain in dB'' (- 24) 24 (gain_db (Gain_default lib))),
            New_plugin (Gain (selected_gain lib st)),
            Board_append (Gain (selected_gain lib st))]
      else [])"

definition reverb_trace :: "libs \<Rightarrow> streamlit \<Rightarrow> bool \<Rightarrow> event list" where
  "reverb_trace lib st enable =
     (if enable
      then [St Main_page (Expander ''Reverb''),
            St (In_expander ''Reverb'')
              (Slider ''Room Size'' 0 1 (room_size (Reverb_default lib))),
            St (In_expander ''Reverb'')
              (Slider ''Damping'' 0 1 (damping (Reverb_default lib))),
            St (In_expander ''Reverb'')
              (Slider ''Wet Level'' 0 1 (wet_level (Reverb_default lib))),
            St (In_expander ''Reverb'')
              (Slider ''Dry Level'' 0 1 (dry_level (Reverb_default lib))),
            St (In_expander ''Reverb'')
              (Slider ''Width'' 0 1 (width (Reverb_default lib))),
            St (In_expander ''Reverb'')
              (Slider ''Freeze mode'' 0 1 (freeze_mode (Reverb_default lib))),
            New_plugin (Reverb (selected_reverb lib st)),
            Board_append (Reverb (selected_reverb lib st))]
      else [])"

text \<open>No constructor of a ticked effect raises on the parameters the sliders give.\<close>

definition plugins_accepted :: "libs \<Rightarrow> streamlit \<Rightarrow> flags \<Rightarrow> bool" where
  "plugins_accepted lib st fl =
     ((enable_compressor fl \<longrightarrow> Compressor_raises lib (selected_compressor lib st) = None)
      \<and> (enable_gain fl \<longrightarrow> Gain_raises lib (selected_gain lib st) = None)
      \<and> (enable_reverb fl \<longrightarrow> Reverb_raises lib (selected_reverb lib st) = None))"

definition assembled_board :: "libs \<Rightarrow> streamlit \<Rightarrow> flags \<Rightarrow> nat \<Rightarrow> pedalboard" where
  "assembled_board lib st fl r =
     \<lparr>plugins =
        (if enable_compressor fl then [Compressor (selected_compressor lib st)] else [])
        @ (if enable_gain fl then [Gain (selected_gain lib st)] else [])
        @ (if enable_reverb fl then [Reverb (selected_reverb lib st)] else []),
      board_sample_rate = r\<rparr>"

definition configure_trace :: "libs \<Rightarrow> streamlit \<Rightarrow> flags \<Rightarrow> nat \<Rightarrow> event list" where
  "configure_trace lib st fl r =
     [St Main_page (Subheader '':hammer_and_wrench: Configure effects''),
      New_pedalboard [] r]
     @ warning_trace (enable_convolution fl) ''Convolution''
     @ compressor_trace lib st (enable_compressor fl)
     @ warning_trace (enable_chorus fl) ''Chorus''
     @ warning_trace (enable_distortion fl) ''Distortion''
     @ gain_trace lib st (enable_gain fl)
     @ warning_trace (enable_hp fl) ''Highpass Filter''
     @ warning_trace (enable_ld fl) ''Ladder Filter''
     @ warning_trace (enable_limiter fl) ''Limiter''
     @ warning_trace (enable_lp fl) ''Lowpass Filter''
     @ warning_trace (enable_phaser fl) ''Phaser''
     @ reverb_trace lib st (enable_reverb fl)
     @ [St In_sidebar (Subheader ''Debug''),
        St In_sidebar (Write_board (assembled_board lib st fl r)),
        St Main_page (Write ''---'')]"

definition output_trace :: "audio \<Rightarrow> nat \<Rightarrow> event list" where
  "output_trace eff r =
     [Plt_subplots 14 5,
      Waveshow eff r,
      St Main_page (Pyplot (Figure 14 5 eff r)),
      Wavfile_write 44100 (Float_array eff),
      St Main_page (Audio (BytesIO 44100 (Float_array eff))),
      Wavfile_write 44100 (Float_array eff),
      St Main_page
        (Download_button ''Dowload effected'' (BytesIO 44100 (Float_array eff))
           ''output.wav'' ''audio/wave'')]"

definition render_trace :: "pedalboard \<Rightarrow> audio \<Rightarrow> event list" where
  "render_trace b a =
     [St Main_page (Subheader '':headphones: Pedalboard output''), Board_call b a]"

section \<open>Notions for stating the properties\<close>

text \<open>
  What is read off a board or a trace: the class name of a plugin, the Streamlit widgets
  of a trace, the arguments of its \<^verbatim>\<open>wavfile.write\<close> calls and of its calls of the board,
  whether a call is one of the numpy calls of \<^verbatim>\<open>_normalize_16_bit\<close>, and the calls that
  come after the load.
\<close>

fun effect_name :: "effect \<Rightarrow> string" where
  "effect_name (Compressor _) = ''Compressor''"
| "effect_name (Gain _) = ''Gain''"
| "effect_name (Reverb _) = ''Reverb''"
| "effect_name Convolution = ''Convolution''"
| "effect_name Chorus = ''Chorus''"
| "effect_name Distortion = ''Distortion''"
| "effect_name HighpassFilter = ''HighpassFilter''"
| "effect_name LadderFilter = ''LadderFilter''"
| "effect_name Limiter = ''Limiter''"
| "effect_name LowpassFilter = ''LowpassFilter''"
| "effect_name Phaser = ''Phaser''"

fun widgets_of :: "event list \<Rightarrow> widget list" where
  "widgets_of [] = []"
| "widgets_of (St c w # t) = w # widgets_of t"
| "widgets_of (_ # t) = widgets_of t"

definition is_numpy :: "event \<Rightarrow> bool" where
  "is_numpy ev = (is_Np_abs ev \<or> is_Np_max ev \<or> is_Np_int16 ev)"

definition after_load :: "event list \<Rightarrow> event list" where
  "after_load t = tl (dropWhile (\<lambda>ev. \<not> is_Librosa_load ev) t)"

text \<open>The flags with the eight checkboxes of the effects that only warn switched off.\<close>

definition without_unimplemented :: "flags \<Rightarrow> flags" where
  "without_unimplemented fl =
     fl\<lparr>enable_convolution := False, enable_chorus := False, enable_distortion := False,
        enable_hp := False, enable_ld := False, enable_limiter := False, enable_lp := False,
        enable_phaser := False\<rparr>"

fun written :: "event list \<Rightarrow> (nat \<times> ndarray) list" where
  "written [] = []"
| "written (Wavfile_write rate d # t) = (rate, d) # written t"
| "written (_ # t) = written t"

fun rendered :: "event list \<Rightarrow> (pedalboard \<times> audio) list" where
  "rendered [] = []"
| "rendered (Board_call b a # t) = (b, a) # rendered t"
| "rendered (_ # t) = rendered t"

text \<open>
  Libraries and pages to run the script on. \<open>demo_libs\<close> loads a two-sample clip at the
  rate it is asked for, refuses to draw an empty buffer, renders by halving every sample
  into a new array, refuses a compressor ratio below 1 and a reverb parameter outside
  [0, 1], and has the defaults of the pedalboard plugins. On \<open>untouched_page\<close> every widget
  hands back its default (a slider keeps it within its bounds) and nothing is uploaded.
\<close>

definition demo_libs :: libs where
  "demo_libs =
     \<lparr>librosa_load = (\<lambda>src sr. Inr ([1 / 2, - 1 / 4], sr)),
      waveshow = (\<lambda>a sr. if a = [] then Inl (Exception ''ParameterError'') else Inr ()),
      process = (\<lambda>b a. Inr (map (\<lambda>x. x / 2) a, a)),
      Compressor_raises = (\<lambda>c. if ratio c < 1 then Some (Exception ''ValueError'') else None),
      Gain_raises = (\<lambda>g. None),
      Reverb_raises =
        (\<lambda>v. if list_all (\<lambda>x. 0 \<le> x \<and> x \<le> 1)
                   [room_size v, damping v, wet_level v, dry_level v, width v, freeze_mode v]
             then None else Some (Exception ''ValueError'')),
      Compressor_default =
        \<lparr>threshold_db = 0, ratio = 1, attack_ms = 1, release_ms = 100\<rparr>,
      Gain_default = \<lparr>gain_db = 1\<rparr>,
      Reverb_default =
        \<lparr>room_size = 1 / 2, damping = 1 / 2, wet_level = 33 / 100, dry_level = 4 / 10,
         width = 1, freeze_mode = 0\<rparr>\<rparr>"

definition untouched_page :: streamlit where
  "untouched_page =
     \<lparr>checkbox = (\<lambda>label v. v),
      slider = (\<lambda>label lo hi v. max lo (min hi v)),
      file_uploader = (\<lambda>label types. None)\<rparr>"

definition uploaded_page :: streamlit where
  "uploaded_page =
     untouched_page\<lparr>file_uploader := (\<lambda>label types. Some (UploadedFile ''clip.wav''))\<rparr>"

text \<open>
  The bounds the script declares to its sliders, as a predicate on the plugin built from
  them, and the contract of a slider: what it hands back lies between its minimum and
  its maximum.
\<close>

fun within_slider_bounds :: "effect \<Rightarrow> bool" where
  "within_slider_bounds (Compressor c) =
     (- 24 \<le> threshold_db c \<and> threshold_db c \<le> 24
      \<and> 0 \<le> ratio c \<and> ratio c \<le> 10
      \<and> 1 / 10 \<le> attack_ms c \<and> attack_ms c \<le> 100
      \<and> 1 / 10 \<le> release_ms c \<and> release_ms c \<le> 1000)"
| "within_slider_bounds (Gain g) = (- 24 \<le> gain_db g \<and> gain_db g \<le> 24)"
| "within_slider_bounds (Reverb v) =
     (0 \<le> room_size v \<and> room_size v \<le> 1
      \<and> 0 \<le> damping v \<and> damping v \<le> 1
      \<and> 0 \<le> wet_level v \<and> wet_level v \<le> 1
      \<and> 0 \<le> dry_level v \<and> dry_level v \<le> 1
      \<and> 0 \<le> width v \<and> width v \<le> 1
      \<and> 0 \<le> freeze_mode v \<and> freeze_mode v \<le> 1)"
| "within_slider_bounds _ = True"

definition slider_in_range :: "streamlit \<Rightarrow> bool" where
  "slider_in_range st =
     (\<forall>label lo hi v. lo \<le> hi \<longrightarrow>
        lo \<le> slider st label lo hi v \<and> slider st label lo hi v \<le> hi)"

text \<open>A page with every checkbox ticked, and libraries whose load or render raises.\<close>

definition everything_ticked :: streamlit where
  "everything_ticked = untouched_page\<lparr>checkbox := (\<lambda>label v. True)\<rparr>"

definition bad_file_libs :: libs where
  "bad_file_libs = demo_libs\<lparr>librosa_load := (\<lambda>src sr. Inl (Exception ''bad file''))\<rparr>"

definition failing_render_libs :: libs where
  "failing_render_libs = demo_libs\<lparr>process := (\<lambda>b a. Inl (Exception ''render failed''))\<rparr>"

text \<open>Checkboxes that stand as given flags say, whatever their defaults.\<close>

definition ticks :: "flags \<Rightarrow> string \<Rightarrow> bool \<Rightarrow> bool" where
  "ticks fl label v =
     (if label = ''Enable Convolution'' then enable_convolution fl
      else if label = ''Enable Compressor'' then enable_compressor fl
      else if label = ''Enable Chorus'' then enable_chorus fl
      else if label = ''Enable Distortion'' then enable_distortion fl
      else if label = ''Enable Gain'' then enable_gain fl
      else if label = ''Enable Highpass Filter'' then enable_hp fl
      else if label = ''Enable Ladder Filter'' then enable_ld fl
      else if label = ''Enable Limiter'' then enable_limiter fl
      else if label = ''Enable Lowpass Filter'' then enable_lp fl
      else if label = ''Enable Phaser'' then enable_phaser fl
      else if label = ''Enable Reverb'' then enable_reverb fl
      else v)"

text \<open>The page with every checkbox ticked and every slider at its minimum.\<close>

definition sliders_at_minimum :: streamlit where
  "sliders_at_minimum = everything_ticked\<lparr>slider := (\<lambda>label lo hi v. lo)\<rparr>"

fun constructed :: "event list \<Rightarrow> effect list" where
  "constructed [] = []"
| "constructed (New_plugin e # t) = e # constructed t"
| "constructed (_ # t) = constructed t"

section \<open>The script makes the calls of the closed forms\<close>

lemma andthen_Inr: "andthen (t, Inr v) f = (t @ fst (f v), snd (f v))"
  by (simp add: andthen_def split: prod.splits)

lemma andthen_Inl: "andthen (t, Inl e) f = (t, Inl e)"
  by (simp add: andthen_def)

lemmas script_simps = andthen_Inr andthen_Inl return_def lib_call_def st_call_def
  st_checkbox_def st_slider_def

lemma sidebar_checkboxes_eq: "sidebar_checkboxes st = (checkbox_trace, Inr (read_flags st))"
  by (simp add: sidebar_checkboxes_def checkbox_trace_def read_flags_def script_simps)

lemma plot_waveform_eq:
  "plot_waveform lib a r =
     (plot_trace a r,
      case waveshow lib a r of Inl e \<Rightarrow> Inl e | Inr u \<Rightarrow> Inr (Figure 14 5 a r))"
  by (cases "waveshow lib a r") (simp_all add: plot_waveform_def plot_trace_def script_simps)

lemma audio_to_virtualfile_False:
  "audio_to_virtualfile a False =
     ([Wavfile_write 44100 (Float_array a)], Inr (BytesIO 44100 (Float_array a)))"
  by (simp add: audio_to_virtualfile_def script_simps)

lemma import_file_load_fails:
  "librosa_load lib (chosen_source st) 44100 = Inl e \<Longrightarrow>
   import_file lib st = (import_trace st, Inl e)"
  by (simp add: import_file_def import_trace_def chosen_source_def script_simps
      split: option.splits)

lemma import_file_plot_fails:
  "librosa_load lib (chosen_source st) 44100 = Inr (a, r) \<Longrightarrow>
   waveshow lib a r = Inl e \<Longrightarrow>
   import_file lib st = (import_trace st @ plot_trace a r, Inl e)"
  by (simp add: import_file_def import_trace_def chosen_source_def plot_waveform_eq
      script_simps split: option.splits)

lemma import_file_returns:
  "librosa_load lib (chosen_source st) 44100 = Inr (a, r) \<Longrightarrow>
   waveshow lib a r = Inr u \<Longrightarrow>
   import_file lib st = (import_trace st @ loaded_trace a r, Inr (a, r))"
  by (simp add: import_file_def import_trace_def loaded_trace_def chosen_source_def
      plot_waveform_eq plot_trace_def audio_to_virtualfile_False normalize_16_default_def
      script_simps split: option.splits)

lemma not_yet_implemented_eq:
  "not_yet_implemented en l = (warning_trace en l, Inr ())"
  by (simp add: not_yet_implemented_def warning_trace_def script_simps)

lemma compressor_block_eq:
  "compressor_block lib st en b =
     (if en
      then case Compressor_raises lib (selected_compressor lib st) of
             None \<Rightarrow>
               (compressor_trace lib st True,
                Inr (b\<lparr>plugins := plugins b @ [Compressor (selected_compressor lib st)]\<rparr>))
           | Some e \<Rightarrow> (butlast (compressor_trace lib st True), Inl e)
      else ([], Inr b))"
  by (simp add: compressor_block_def compressor_trace_def selected_compressor_def
      new_Compressor_def board_append_def script_simps split: option.splits)

lemma gain_block_eq:
  "gain_block lib st en b =
     (if en
      then case Gain_raises lib (selected_gain lib st) of
             None \<Rightarrow>
               (gain_trace lib st True,
                Inr (b\<lparr>plugins := plugins b @ [Gain (selected_gain lib st)]\<rparr>))
           | Some e \<Rightarrow> (butlast (gain_trace lib st True), Inl e)
      else ([], Inr b))"
  by (simp add: gain_block_def gain_trace_def selected_gain_def new_Gain_def board_append_def
      script_simps split: option.splits)

lemma reverb_block_eq:
  "reverb_block lib st en b =
     (if en
      then case Reverb_raises lib (selected_reverb lib st) of
             None \<Rightarrow>
               (reverb_trace lib st True,
                Inr (b\<lparr>plugins := plugins b @ [Reverb (selected_reverb lib st)]\<rparr>))
           | Some e \<Rightarrow> (butlast (reverb_trace lib st True), Inl e)
      else ([], Inr b))"
  by (simp add: reverb_block_def reverb_trace_def selected_reverb_def new_Reverb_def
      board_append_def script_simps split: option.splits)

lemma configure_effects_accepted:
  "plugins_accepted lib st fl \<Longrightarrow>
   configure_effects lib st fl r = (configure_trace lib st fl r, Inr (assembled_board lib st fl r))"
  by (simp add: configure_effects_def configure_trace_def assembled_board_def
      plugins_accepted_def not_yet_implemented_eq compressor_block_eq gain_block_eq
      reverb_block_eq compressor_trace_def gain_trace_def reverb_trace_def script_simps)

lemma configure_effects_returns_iff:
  "snd (configure_effects lib st fl r) = Inr b \<longleftrightarrow>
     plugins_accepted lib st fl \<and> b = assembled_board lib st fl r"
  by (auto simp add: configure_effects_def assembled_board_def
      plugins_accepted_def not_yet_implemented_eq compressor_block_eq gain_block_eq
      reverb_block_eq script_simps split: option.splits)

lemma configure_effects_raises:
  "plugins_accepted lib st fl \<or> (\<exists>e. snd (configure_effects lib st fl r) = Inl e)"
  using configure_effects_returns_iff [of lib st fl r]
  by (cases "snd (configure_effects lib st fl r)") auto

lemma pedalboard_render_fails:
  "process lib b a = Inl e \<Longrightarrow> pedalboard_render lib b a r = (render_trace b a, Inl e)"
  by (simp add: pedalboard_render_def render_trace_def script_simps)

lemma pedalboard_render_plot_fails:
  "process lib b a = Inr (eff, a') \<Longrightarrow> waveshow lib eff r = Inl e \<Longrightarrow>
   pedalboard_render lib b a r = (render_trace b a @ plot_trace eff r, Inl e)"
  by (simp add: pedalboard_render_def render_trace_def plot_waveform_eq script_simps)

lemma pedalboard_render_returns:
  "process lib b a = Inr (eff, a') \<Longrightarrow> waveshow lib eff r = Inr u \<Longrightarrow>
   pedalboard_render lib b a r = (render_trace b a @ output_trace eff r, Inr (eff, a'))"
  by (simp add: pedalboard_render_def render_trace_def output_trace_def plot_waveform_eq
      plot_trace_def audio_to_virtualfile_False normalize_16_default_def script_simps)

lemma main_load_fails:
  "librosa_load lib (chosen_source st) 44100 = Inl e \<Longrightarrow>
   main lib st = (checkbox_trace @ import_trace st, Inl e)"
  by (simp add: main_def sidebar_checkboxes_eq import_file_load_fails script_simps)

lemma main_plot_fails:
  "librosa_load lib (chosen_source st) 44100 = Inr (a, r) \<Longrightarrow>
   waveshow lib a r = Inl e \<Longrightarrow>
   main lib st = (checkbox_trace @ import_trace st @ plot_trace a r, Inl e)"
  by (simp add: main_def sidebar_checkboxes_eq import_file_plot_fails script_simps)

lemma main_configure_fails:
  "librosa_load lib (chosen_source st) 44100 = Inr (a, r) \<Longrightarrow>
   waveshow lib a r = Inr () \<Longrightarrow>
   snd (configure_effects lib st (read_flags st) r) = Inl e \<Longrightarrow>
   main lib st =
     (checkbox_trace @ import_trace st @ loaded_trace a r
        @ fst (configure_effects lib st (read_flags st) r),
      Inl e)"
  by (cases "configure_effects lib st (read_flags st) r")
    (simp add: main_def after_import_def sidebar_checkboxes_eq import_file_returns
      script_simps)

lemma main_render_fails:
  "librosa_load lib (chosen_source st) 44100 = Inr (a, r) \<Longrightarrow>
   waveshow lib a r = Inr () \<Longrightarrow>
   plugins_accepted lib st (read_flags st) \<Longrightarrow>
   process lib (assembled_board lib st (read_flags st) r) a = Inl e \<Longrightarrow>
   main lib st =
     (checkbox_trace @ import_trace st @ loaded_trace a r
        @ configure_trace lib st (read_flags st) r
        @ render_trace (assembled_board lib st (read_flags st) r) a,
      Inl e)"
  by (simp add: main_def after_import_def sidebar_checkboxes_eq import_file_returns
      configure_effects_accepted pedalboard_render_fails script_simps)

lemma main_result_plot_fails:
  "librosa_load lib (chosen_source st) 44100 = Inr (a, r) \<Longrightarrow>
   waveshow lib a r = Inr () \<Longrightarrow>
   plugins_accepted lib st (read_flags st) \<Longrightarrow>
   process lib (assembled_board lib st (read_flags st) r) a = Inr (eff, a') \<Longrightarrow>
   waveshow lib eff r = Inl e \<Longrightarrow>
   main lib st =
     (checkbox_trace @ import_trace st @ loaded_trace a r
        @ configure_trace lib st (read_flags st) r
        @ render_trace (assembled_board lib st (read_flags st) r) a
        @ plot_trace eff r,
      Inl e)"
  by (simp add: main_def after_import_def sidebar_checkboxes_eq import_file_returns
      configure_effects_accepted pedalboard_render_plot_fails script_simps)

lemma main_returns:
  "librosa_load lib (chosen_source st) 44100 = Inr (a, r) \<Longrightarrow>
   waveshow lib a r = Inr () \<Longrightarrow>
   plugins_accepted lib st (read_flags st) \<Longrightarrow>
   process lib (assembled_board lib st (read_flags st) r) a = Inr (eff, a') \<Longrightarrow>
   waveshow lib eff r = Inr () \<Longrightarrow>
   main lib st =
     (checkbox_trace @ import_trace st @ loaded_trace a r
        @ configure_trace lib st (read_flags st) r
        @ render_trace (assembled_board lib st (read_flags st) r) a
        @ output_trace eff r,
      Inr \<lparr>loc_audio = a', loc_sample_rate = r,
        loc_board = assembled_board lib st (read_flags st) r, loc_effected = eff\<rparr>)"
  by (simp add: main_def after_import_def sidebar_checkboxes_eq import_file_returns
      configure_effects_accepted pedalboard_render_returns script_simps)

lemma main_cases:
  obtains (load_fails) e where "librosa_load lib (chosen_source st) 44100 = Inl e"
      and "main lib st = (checkbox_trace @ import_trace st, Inl e)"
  | (plot_fails) a r e where "librosa_load lib (chosen_source st) 44100 = Inr (a, r)"
      and "waveshow lib a r = Inl e"
      and "main lib st = (checkbox_trace @ import_trace st @ plot_trace a r, Inl e)"
  | (configure_fails) a r e where "librosa_load lib (chosen_source st) 44100 = Inr (a, r)"
      and "waveshow lib a r = Inr ()"
      and "snd (configure_effects lib st (read_flags st) r) = Inl e"
      and "main lib st =
        (checkbox_trace @ import_trace st @ loaded_trace a r
          @ fst (configure_effects lib st (read_flags st) r), Inl e)"
  | (render_fails) a r e where "librosa_load lib (chosen_source st) 44100 = Inr (a, r)"
      and "waveshow lib a r = Inr ()"
      and "plugins_accepted lib st (read_flags st)"
      and "process lib (assembled_board lib st (read_flags st) r) a = Inl e"
      and "main lib st =
        (checkbox_trace @ import_trace st @ loaded_trace a r
          @ configure_trace lib st (read_flags st) r
          @ render_trace (assembled_board lib st (read_flags st) r) a, Inl e)"
  | (result_plot_fails) a r eff a' e
    where "librosa_load lib (chosen_source st) 44100 = Inr (a, r)"
      and "waveshow lib a r = Inr ()"
      and "plugins_accepted lib st (read_flags st)"
      and "process lib (assembled_board lib st (read_flags st) r) a = Inr (eff, a')"
      and "waveshow lib eff r = Inl e"
      and "main lib st =
        (checkbox_trace @ import_trace st @ loaded_trace a r
          @ configure_trace lib st (read_flags st) r
          @ render_trace (assembled_board lib st (read_flags st) r) a
          @ plot_trace eff r, Inl e)"
  | (returns) a r eff a' where "librosa_load lib (chosen_source st) 44100 = Inr (a, r)"
      and "waveshow lib a r = Inr ()"
      and "plugins_accepted lib st (read_flags st)"
      and "process lib (assembled_board lib st (read_flags st) r) a = Inr (eff, a')"
      and "waveshow lib eff r = Inr ()"
      and "main lib st =
        (checkbox_trace @ import_trace st @ loaded_trace a r
          @ configure_trace lib st (read_flags st) r
          @ render_trace (assembled_board lib st (read_flags st) r) a
          @ output_trace eff r,
         Inr \<lparr>loc_audio = a', loc_sample_rate = r,
           loc_board = assembled_board lib st (read_flags st) r, loc_effected = eff\<rparr>)"
proof (cases "librosa_load lib (chosen_source st) 44100")
  case (Inl e)
  then show ?thesis using load_fails main_load_fails by blast
next
  case (Inr p)
  obtain a r where p: "p = (a, r)" by (cases p)
  note l = Inr [unfolded p]
  show ?thesis
  proof (cases "waveshow lib a r")
    case (Inl e)
    then show ?thesis using plot_fails main_plot_fails l by blast
  next
    case w: (Inr u)
    then have w: "waveshow lib a r = Inr ()" by simp
    show ?thesis
    proof (cases "plugins_accepted lib st (read_flags st)")
      case False
      with configure_effects_raises [of lib st "read_flags st" r]
      obtain e where "snd (configure_effects lib st (read_flags st) r) = Inl e" by blast
      then show ?thesis using configure_fails main_configure_fails l w by blast
    next
      case True
      show ?thesis
      proof (cases "process lib (assembled_board lib st (read_flags st) r) a")
        case (Inl e)
        then show ?thesis using render_fails main_render_fails l w True by blast
      next
        case (Inr q)
        obtain eff a' where q: "q = (eff, a')" by (cases q)
        note pr = Inr [unfolded q]
        show ?thesis
        proof (cases "waveshow lib eff r")
          case (Inl e)
          then show ?thesis
            using result_plot_fails main_result_plot_fails l w True pr by blast
        next
          case (Inr u)
          then have "waveshow lib eff r = Inr ()" by simp
          then show ?thesis using returns main_returns l w True pr by blast
        qed
      qed
    qed
  qed
qed

lemma widgets_of_append: "widgets_of (xs @ ys) = widgets_of xs @ widgets_of ys"
  by (induction xs rule: widgets_of.induct) simp_all

lemma written_append: "written (xs @ ys) = written xs @ written ys"
  by (induction xs rule: written.induct) simp_all

lemma rendered_append: "rendered (xs @ ys) = rendered xs @ rendered ys"
  by (induction xs rule: rendered.induct) simp_all

lemmas trace_append = widgets_of_append written_append rendered_append

lemma filter_warning_trace:
  "\<not> P (St Main_page (Expander l)) \<Longrightarrow>
   \<not> P (St (In_expander l) (Warning ''Not yet implemented'')) \<Longrightarrow>
   filter P (warning_trace en l) = []"
  by (simp add: warning_trace_def)

lemma filter_widgets_warning_trace:
  "\<not> P (Expander l) \<Longrightarrow> \<not> P (Warning ''Not yet implemented'') \<Longrightarrow>
   filter P (widgets_of (warning_trace en l)) = []"
  by (simp add: warning_trace_def)

lemma written_warning_trace: "written (warning_trace en l) = []"
  by (simp add: warning_trace_def)

lemma rendered_warning_trace: "rendered (warning_trace en l) = []"
  by (simp add: warning_trace_def)

lemmas warning_simps = filter_warning_trace filter_widgets_warning_trace
  written_warning_trace rendered_warning_trace

lemmas call_defs = checkbox_trace_def import_trace_def plot_trace_def loaded_trace_def
  configure_trace_def compressor_trace_def gain_trace_def reverb_trace_def render_trace_def
  output_trace_def

lemmas configure_unfold = configure_effects_def not_yet_implemented_eq compressor_block_eq
  gain_block_eq reverb_block_eq compressor_trace_def gain_trace_def reverb_trace_def
  script_simps

lemma configure_loads: "filter is_Librosa_load (fst (configure_effects lib st fl r)) = []"
  by (simp add: configure_unfold warning_simps split: option.splits)

lemma configure_numpy: "filter is_numpy (fst (configure_effects lib st fl r)) = []"
  by (simp add: configure_unfold warning_simps is_numpy_def split: option.splits)

lemma configure_written: "written (fst (configure_effects lib st fl r)) = []"
  by (simp add: configure_unfold warning_simps trace_append split: option.splits)

lemma configure_rendered: "rendered (fst (configure_effects lib st fl r)) = []"
  by (simp add: configure_unfold warning_simps trace_append split: option.splits)

lemma configure_new_pedalboard:
  "filter is_New_pedalboard (fst (configure_effects lib st fl r)) = [New_pedalboard [] r]"
  by (simp add: configure_unfold warning_simps split: option.splits)

lemma configure_uploaders:
  "filter is_File_uploader (widgets_of (fst (configure_effects lib st fl r))) = []"
  by (simp add: configure_unfold warning_simps trace_append split: option.splits)

lemma configure_downloads:
  "filter is_Download_button (widgets_of (fst (configure_effects lib st fl r))) = []"
  by (simp add: configure_unfold warning_simps trace_append split: option.splits)

lemma configure_players:
  "filter is_Audio (widgets_of (fst (configure_effects lib st fl r))) = []"
  by (simp add: configure_unfold warning_simps trace_append split: option.splits)

lemma configure_plots:
  "filter is_Pyplot (widgets_of (fst (configure_effects lib st fl r))) = []"
  by (simp add: configure_unfold warning_simps trace_append split: option.splits)

lemmas configure_calls = configure_loads configure_numpy configure_written configure_rendered
  configure_new_pedalboard configure_uploaders configure_downloads configure_players
  configure_plots

lemma read_flags_ticks: "read_flags (st\<lparr>checkbox := ticks fl\<rparr>) = fl"
  by (cases fl) (simp add: read_flags_def ticks_def)

lemma main_rendered:
  "rendered (fst (main lib st)) = [] \<or>
   (\<exists>a r. rendered (fst (main lib st)) = [(assembled_board lib st (read_flags st) r, a)])"
proof (cases rule: main_cases [of lib st])
  case (load_fails e)
  then have "rendered (fst (main lib st)) = []"
    by (simp add: call_defs)
  then show ?thesis by blast
next
  case (plot_fails a r e)
  then have "rendered (fst (main lib st)) = []"
    by (simp add: call_defs trace_append)
  then show ?thesis by blast
next
  case (configure_fails a r e)
  then have "rendered (fst (main lib st)) = []"
    by (simp add: call_defs trace_append configure_calls)
  then show ?thesis by blast
next
  case (render_fails a r e)
  then have "rendered (fst (main lib st)) = [(assembled_board lib st (read_flags st) r, a)]"
    by (simp add: call_defs warning_simps trace_append)
  then show ?thesis by blast
next
  case (result_plot_fails a r eff a' e)
  then have "rendered (fst (main lib st)) = [(assembled_board lib st (read_flags st) r, a)]"
    by (simp add: call_defs warning_simps trace_append)
  then show ?thesis by blast
next
  case (returns a r eff a')
  then have "rendered (fst (main lib st)) = [(assembled_board lib st (read_flags st) r, a)]"
    by (simp add: call_defs warning_simps trace_append)
  then show ?thesis by blast
qed

lemma main_board:
  "snd (main lib st) = Inr l \<Longrightarrow>
   \<exists>r. loc_board l = assembled_board lib st (read_flags st) r"
  by (cases rule: main_cases [of lib st]) auto

lemma assembled_names:
  "map effect_name (plugins (assembled_board lib st fl r)) =
     (if enable_compressor fl then [''Compressor''] else [])
     @ (if enable_gain fl then [''Gain''] else [])
     @ (if enable_reverb fl then [''Reverb''] else [])"
  by (simp add: assembled_board_def)

lemma main_loads:
  "filter is_Librosa_load (fst (main lib st)) = [Librosa_load (chosen_source st) 44100]"
  by (cases rule: main_cases [of lib st])
    (simp_all add: call_defs warning_simps configure_calls)

lemma main_written_rates: "list_all (\<lambda>w. fst w = 44100) (written (fst (main lib st)))"
  by (cases rule: main_cases [of lib st])
    (simp_all add: call_defs warning_simps trace_append configure_calls)

lemma main_new_pedalboard:
  assumes "librosa_load lib (chosen_source st) 44100 = Inr (a, r)"
  shows "filter is_New_pedalboard (fst (main lib st)) =
    (case waveshow lib a r of Inl e \<Rightarrow> [] | Inr u \<Rightarrow> [New_pedalboard [] r])"
  using assms
  by (cases rule: main_cases [of lib st])
    (simp_all add: call_defs warning_simps configure_calls)

lemma main_rendered_loaded:
  assumes "librosa_load lib (chosen_source st) 44100 = Inr (a, r)"
  shows "rendered (fst (main lib st)) =
    (if waveshow lib a r = Inr () \<and> plugins_accepted lib st (read_flags st)
     then [(assembled_board lib st (read_flags st) r, a)] else [])"
proof (cases rule: main_cases [of lib st])
  case (load_fails e)
  with assms show ?thesis by simp
next
  case (plot_fails a r e)
  with assms show ?thesis by (simp add: call_defs trace_append)
next
  case (configure_fails a r e)
  with assms show ?thesis
    by (auto simp add: call_defs trace_append configure_calls
        configure_effects_accepted)
next
  case (render_fails a r e)
  with assms show ?thesis by (simp add: call_defs warning_simps trace_append)
next
  case (result_plot_fails a r eff a' e)
  with assms show ?thesis by (simp add: call_defs warning_simps trace_append)
next
  case (returns a r eff a')
  with assms show ?thesis by (simp add: call_defs warning_simps trace_append)
qed

lemma main_written_loaded:
  assumes "librosa_load lib (chosen_source st) 44100 = Inr (a, r)"
      and "waveshow lib a r = Inr ()"
  shows "take 1 (written (fst (main lib st))) = [(44100, Float_array a)]"
  using assms
  by (cases rule: main_cases [of lib st])
    (simp_all add: call_defs warning_simps trace_append configure_calls)

lemma after_load_main_prefix:
  "after_load (checkbox_trace @ import_trace st @ rest) = rest"
  by (simp add: after_load_def checkbox_trace_def import_trace_def)

lemma same_sliders:
  assumes "slider st' = slider st"
  shows "configure_effects lib st' fl r = configure_effects lib st fl r"
  unfolding configure_effects_def compressor_block_def gain_block_def reverb_block_def
    st_slider_def assms
  by (rule refl)

lemma same_checkboxes: "checkbox st' = checkbox st \<Longrightarrow> read_flags st' = read_flags st"
  by (simp add: read_flags_def)

lemma main_after_import:
  "librosa_load lib (chosen_source st) 44100 = Inr (a, r) \<Longrightarrow>
   waveshow lib a r = Inr () \<Longrightarrow>
   main lib st =
     (checkbox_trace @ import_trace st @ loaded_trace a r
        @ fst (after_import lib st (read_flags st) a r),
      snd (after_import lib st (read_flags st) a r))"
  by (simp add: main_def sidebar_checkboxes_eq import_file_returns script_simps)

lemma main_after_load:
  "\<exists>rest. fst (main lib st) = checkbox_trace @ import_trace st @ rest
     \<and> (\<forall>st'. checkbox st' = checkbox st \<and> slider st' = slider st
            \<and> librosa_load lib (chosen_source st') 44100 =
                librosa_load lib (chosen_source st) 44100 \<longrightarrow>
          main lib st' = (checkbox_trace @ import_trace st' @ rest, snd (main lib st)))"
proof (cases "librosa_load lib (chosen_source st) 44100")
  case (Inl e)
  show ?thesis
  proof (intro exI [of _ "[]"] conjI allI impI)
    show "fst (main lib st) = checkbox_trace @ import_trace st @ []"
      by (simp add: main_load_fails [OF Inl])
  next
    fix st'
    assume "checkbox st' = checkbox st \<and> slider st' = slider st
      \<and> librosa_load lib (chosen_source st') 44100 = librosa_load lib (chosen_source st) 44100"
    with Inl have "librosa_load lib (chosen_source st') 44100 = Inl e" by simp
    then show "main lib st' = (checkbox_trace @ import_trace st' @ [], snd (main lib st))"
      by (simp add: main_load_fails main_load_fails [OF Inl])
  qed
next
  case (Inr p)
  obtain a r where p: "p = (a, r)" by (cases p)
  note l = Inr [unfolded p]
  show ?thesis
  proof (cases "waveshow lib a r")
    case (Inl e)
    show ?thesis
    proof (intro exI [of _ "plot_trace a r"] conjI allI impI)
      show "fst (main lib st) = checkbox_trace @ import_trace st @ plot_trace a r"
        by (simp add: main_plot_fails [OF l Inl])
    next
      fix st'
      assume "checkbox st' = checkbox st \<and> slider st' = slider st
        \<and> librosa_load lib (chosen_source st') 44100 =
            librosa_load lib (chosen_source st) 44100"
      with l have "librosa_load lib (chosen_source st') 44100 = Inr (a, r)" by simp
      then show "main lib st' =
          (checkbox_trace @ import_trace st' @ plot_trace a r, snd (main lib st))"
        by (simp add: main_plot_fails [OF _ Inl] main_plot_fails [OF l Inl])
    qed
  next
    case (Inr u)
    then have w: "waveshow lib a r = Inr ()" by simp
    let ?rest = "loaded_trace a r @ fst (after_import lib st (read_flags st) a r)"
    show ?thesis
    proof (intro exI [of _ ?rest] conjI allI impI)
      show "fst (main lib st) = checkbox_trace @ import_trace st @ ?rest"
        by (simp add: main_after_import [OF l w])
    next
      fix st'
      assume h: "checkbox st' = checkbox st \<and> slider st' = slider st
        \<and> librosa_load lib (chosen_source st') 44100 =
            librosa_load lib (chosen_source st) 44100"
      then have c: "checkbox st' = checkbox st" and s: "slider st' = slider st"
        by blast+
      from h l have l': "librosa_load lib (chosen_source st') 44100 = Inr (a, r)" by simp
      have e: "after_import lib st' (read_flags st') a r =
          after_import lib st (read_flags st) a r"
        by (simp only: after_import_def same_sliders [OF s] same_checkboxes [OF c])
      show "main lib st' = (checkbox_trace @ import_trace st' @ ?rest, snd (main lib st))"
        by (simp only: main_after_import [OF l' w] main_after_import [OF l w] e snd_conv)
    qed
  qed
qed

lemma main_draws_loaded:
  assumes "librosa_load lib (chosen_source st) 44100 = Inr (a, r)"
  shows "take 2 (after_load (fst (main lib st))) = [Plt_subplots 14 5, Waveshow a r]"
  using assms
  by (cases rule: main_cases [of lib st])
    (simp_all add: after_load_main_prefix loaded_trace_def plot_trace_def)

lemma main_plays_loaded:
  assumes "librosa_load lib (chosen_source st) 44100 = Inr (a, r)"
      and "waveshow lib a r = Inr ()"
  shows "take 1 (filter is_Audio (widgets_of (fst (main lib st)))) =
    [Audio (BytesIO 44100 (Float_array a))]"
  using assms
  by (cases rule: main_cases [of lib st])
    (simp_all add: call_defs warning_simps trace_append configure_calls)

lemma constructed_append: "constructed (xs @ ys) = constructed xs @ constructed ys"
  by (induction xs rule: constructed.induct) simp_all

lemma constructed_warning_trace: "constructed (warning_trace en l) = []"
  by (simp add: warning_trace_def)

lemma slider_in_rangeD:
  "slider_in_range st \<Longrightarrow> lo \<le> hi \<Longrightarrow>
   \<forall>label v. lo \<le> slider st label lo hi v \<and> slider st label lo hi v \<le> hi"
  by (simp add: slider_in_range_def)

lemma selected_within_bounds:
  assumes "slider_in_range st"
  shows "within_slider_bounds (Compressor (selected_compressor lib st))"
    and "within_slider_bounds (Gain (selected_gain lib st))"
    and "within_slider_bounds (Reverb (selected_reverb lib st))"
  using slider_in_rangeD [OF assms, of "- 24" 24] slider_in_rangeD [OF assms, of 0 10]
    slider_in_rangeD [OF assms, of "1 / 10" 100] slider_in_rangeD [OF assms, of "1 / 10" 1000]
    slider_in_rangeD [OF assms, of 0 1]
  by (simp_all add: selected_compressor_def selected_gain_def selected_reverb_def)

lemma configure_constructed:
  "constructed (fst (configure_effects lib st fl r)) =
     (if enable_compressor fl then [Compressor (selected_compressor lib st)] else [])
     @ (if enable_compressor fl \<and> Compressor_raises lib (selected_compressor lib st) \<noteq> None
        then []
        else (if enable_gain fl then [Gain (selected_gain lib st)] else [])
          @ (if enable_gain fl \<and> Gain_raises lib (selected_gain lib st) \<noteq> None
             then []
             else (if enable_reverb fl then [Reverb (selected_reverb lib st)] else [])))"
  by (simp add: configure_unfold constructed_append constructed_warning_trace
      split: option.splits)

lemma main_uploaders:
  "filter is_File_uploader (widgets_of (fst (main lib st))) =
     [File_uploader ''Upload wav file'' [''wav'']]"
  by (cases rule: main_cases [of lib st])
    (simp_all add: call_defs warning_simps trace_append configure_calls)

lemma main_raises_no_download:
  "snd (main lib st) = Inl e \<Longrightarrow>
   filter is_Download_button (widgets_of (fst (main lib st))) = []"
  by (cases rule: main_cases [of lib st])
    (simp_all add: call_defs warning_simps trace_append configure_calls)

lemma trunc_within:
  "- 29491 < r \<Longrightarrow> r < 29491 \<Longrightarrow> - 29490 \<le> trunc r \<and> trunc r \<le> 29490"
  unfolding trunc_def by (auto; linarith)

lemma map_eq_replicate: "(\<And>x. x \<in> set xs \<Longrightarrow> f x = c) \<Longrightarrow> map f xs = replicate (length xs) c"
  by (induction xs) simp_all

lemma np_max_abs_zero:
  assumes "a \<noteq> []" and "list_all (\<lambda>x. x = 0) a"
  shows "np_max (map abs a) = Inr 0"
proof -
  from assms have "set (map abs a) = {0}"
    by (cases a) (auto simp: list_all_iff)
  with assms(1) show ?thesis
    by (simp add: np_max_def del: set_map)
qed

lemma np_max_abs_pos:
  assumes "\<not> list_all (\<lambda>x. x = 0) a"
  shows "\<exists>m. np_max (map abs a) = Inr m \<and> 0 < m \<and> (\<forall>x\<in>set a. \<bar>x\<bar> \<le> m)"
proof -
  from assms obtain z where z: "z \<in> set a" "z \<noteq> 0"
    by (auto simp: list_all_iff)
  then have ne: "a \<noteq> []" by auto
  let ?m = "Max (set (map abs a))"
  have le: "\<And>x. x \<in> set a \<Longrightarrow> \<bar>x\<bar> \<le> ?m"
    by (simp add: Max_ge)
  from le [OF z(1)] z(2) have "0 < ?m" by linarith
  with ne le show ?thesis
    by (auto simp: np_max_def)
qed

lemma scaled_sample:
  assumes "0 < m" and "\<bar>x\<bar> \<le> m"
  shows "\<exists>y. np_int16 (np_multiply (np_multiply (np_divide x m) 32767) (9 / 10)) = Some y
           \<and> - 32768 \<le> y \<and> y \<le> 32767"
proof -
  define q where "q = x / m"
  from assms have "\<bar>q\<bar> \<le> 1" by (simp add: q_def)
  then have "- 29491 < q * 32767 * (9 / 10)" and "q * 32767 * (9 / 10) < 29491"
    by simp_all
  from trunc_within [OF this] assms(1) show ?thesis
    by (simp add: np_divide_def q_def)
qed

lemma normalize_16_bit_snd:
  "snd (normalize_16_bit a) =
     (case np_max (map abs a) of
        Inl e \<Rightarrow> Inl e
      | Inr m \<Rightarrow>
          Inr (map (\<lambda>x. np_int16 (np_multiply (np_multiply (np_divide x m) 32767) (9 / 10)))
                 a))"
  by (cases "np_max (map abs a)") (simp_all add: normalize_16_bit_def script_simps comp_def)

lemma main_numpy_free: "filter is_numpy (fst (main lib st)) = []"
  by (cases rule: main_cases [of lib st])
    (simp_all add: call_defs warning_simps configure_calls is_numpy_def)

lemma main_writes_floats:
  "list_all (\<lambda>w. is_Float_array (snd w)) (written (fst (main lib st)))"
  by (cases rule: main_cases [of lib st])
    (simp_all add: call_defs warning_simps trace_append configure_calls)

lemma audio_to_virtualfile_True_calls_numpy:
  "take 1 (fst (audio_to_virtualfile a True)) = [Np_abs a]"
  by (cases "np_max (map abs a)")
    (simp_all add: audio_to_virtualfile_def normalize_16_bit_def script_simps)

section \<open>Properties\<close>

text \<open>
  C1. The flags are what the eleven sidebar checkboxes hand back, and every assignment of
  the eleven is handed back by some page. For any flags, whenever \<open>configure_effects\<close>
  returns a board, it holds one Compressor exactly when the compressor checkbox is ticked
  (and none otherwise), one Gain exactly when the gain checkbox is ticked, one Reverb
  exactly when the reverb checkbox is ticked, and no plugin of another class, those
  present in the order Compressor, Gain, Reverb; it returns a board exactly when no
  constructor of a ticked effect raises on the parameters of its sliders. In a run of
  \<open>main\<close>, the board that is called, and the board held at the end, are made up in this way
  from the checkboxes of the page.
\<close>

theorem chain_follows_checkboxes:
  "snd (sidebar_checkboxes st) =
     Inr \<lparr>enable_convolution = checkbox st ''Enable Convolution'' False,
          enable_compressor = checkbox st ''Enable Compressor'' False,
          enable_chorus = checkbox st ''Enable Chorus'' False,
          enable_distortion = checkbox st ''Enable Distortion'' False,
          enable_gain = checkbox st ''Enable Gain'' True,
          enable_hp = checkbox st ''Enable Highpass Filter'' False,
          enable_ld = checkbox st ''Enable Ladder Filter'' False,
          enable_limiter = checkbox st ''Enable Limiter'' False,
          enable_lp = checkbox st ''Enable Lowpass Filter'' False,
          enable_phaser = checkbox st ''Enable Phaser'' False,
          enable_reverb = checkbox st ''Enable Reverb'' False\<rparr>
   \<and> snd (sidebar_checkboxes (st\<lparr>checkbox := ticks fl\<rparr>)) = Inr fl
   \<and> (\<forall>b. snd (configure_effects lib st fl r) = Inr b \<longrightarrow>
         length (filter is_Compressor (plugins b)) = (if enable_compressor fl then 1 else 0)
         \<and> length (filter is_Gain (plugins b)) = (if enable_gain fl then 1 else 0)
         \<and> length (filter is_Reverb (plugins b)) = (if enable_reverb fl then 1 else 0)
         \<and> filter (\<lambda>e. \<not> is_Compressor e \<and> \<not> is_Gain e \<and> \<not> is_Reverb e) (plugins b) = []
         \<and> map effect_name (plugins b) =
              (if enable_compressor fl then [''Compressor''] else [])
              @ (if enable_gain fl then [''Gain''] else [])
              @ (if enable_reverb fl then [''Reverb''] else []))
   \<and> ((\<exists>b. snd (configure_effects lib st fl r) = Inr b) = plugins_accepted lib st fl)
   \<and> list_all
        (\<lambda>c. map effect_name (plugins (fst c)) =
           (if checkbox st ''Enable Compressor'' False then [''Compressor''] else [])
           @ (if checkbox st ''Enable Gain'' True then [''Gain''] else [])
           @ (if checkbox st ''Enable Reverb'' False then [''Reverb''] else []))
        (rendered (fst (main lib st)))
   \<and> (\<forall>l. snd (main lib st) = Inr l \<longrightarrow>
         map effect_name (plugins (loc_board l)) =
           (if checkbox st ''Enable Compressor'' False then [''Compressor''] else [])
           @ (if checkbox st ''Enable Gain'' True then [''Gain''] else [])
           @ (if checkbox st ''Enable Reverb'' False then [''Reverb''] else []))"
proof (intro conjI allI impI)
  show "snd (sidebar_checkboxes st) =
     Inr \<lparr>enable_convolution = checkbox st ''Enable Convolution'' False,
          enable_compressor = checkbox st ''Enable Compressor'' False,
          enable_chorus = checkbox st ''Enable Chorus'' False,
          enable_distortion = checkbox st ''Enable Distortion'' False,
          enable_gain = checkbox st ''Enable Gain'' True,
          enable_hp = checkbox st ''Enable Highpass Filter'' False,
          enable_ld = checkbox st ''Enable Ladder Filter'' False,
          enable_limiter = checkbox st ''Enable Limiter'' False,
          enable_lp = checkbox st ''Enable Lowpass Filter'' False,
          enable_phaser = checkbox st ''Enable Phaser'' False,
          enable_reverb = checkbox st ''Enable Reverb'' False\<rparr>"
    by (simp add: sidebar_checkboxes_eq read_flags_def)
  show "snd (sidebar_checkboxes (st\<lparr>checkbox := ticks fl\<rparr>)) = Inr fl"
    by (simp add: sidebar_checkboxes_eq read_flags_ticks)
  show "(\<exists>b. snd (configure_effects lib st fl r) = Inr b) = plugins_accepted lib st fl"
    by (simp add: configure_effects_returns_iff)
  have n: "map effect_name (plugins (assembled_board lib st (read_flags st) q)) =
      (if checkbox st ''Enable Compressor'' False then [''Compressor''] else [])
      @ (if checkbox st ''Enable Gain'' True then [''Gain''] else [])
      @ (if checkbox st ''Enable Reverb'' False then [''Reverb''] else [])" for q
    by (simp add: assembled_names read_flags_def)
  from main_rendered [of lib st] show "list_all
        (\<lambda>c. map effect_name (plugins (fst c)) =
           (if checkbox st ''Enable Compressor'' False then [''Compressor''] else [])
           @ (if checkbox st ''Enable Gain'' True then [''Gain''] else [])
           @ (if checkbox st ''Enable Reverb'' False then [''Reverb''] else []))
        (rendered (fst (main lib st)))"
  proof (elim disjE exE)
    assume "rendered (fst (main lib st)) = []"
    then show ?thesis by simp
  next
    fix a q
    assume e: "rendered (fst (main lib st)) = [(assembled_board lib st (read_flags st) q, a)]"
    show ?thesis
      by (simp only: e list.pred_inject fst_conv n simp_thms)
  qed
next
  fix b
  assume "snd (configure_effects lib st fl r) = Inr b"
  then have b: "b = assembled_board lib st fl r"
    by (simp add: configure_effects_returns_iff)
  show "length (filter is_Compressor (plugins b)) = (if enable_compressor fl then 1 else 0)"
    by (simp add: b assembled_board_def)
  show "length (filter is_Gain (plugins b)) = (if enable_gain fl then 1 else 0)"
    by (simp add: b assembled_board_def)
  show "length (filter is_Reverb (plugins b)) = (if enable_reverb fl then 1 else 0)"
    by (simp add: b assembled_board_def)
  show "filter (\<lambda>e. \<not> is_Compressor e \<and> \<not> is_Gain e \<and> \<not> is_Reverb e) (plugins b) = []"
    by (simp add: b assembled_board_def)
  show "map effect_name (plugins b) =
      (if enable_compressor fl then [''Compressor''] else [])
      @ (if enable_gain fl then [''Gain''] else [])
      @ (if enable_reverb fl then [''Reverb''] else [])"
    by (simp add: b assembled_names)
next
  fix l
  assume "snd (main lib st) = Inr l"
  from main_board [OF this] obtain q where
    "loc_board l = assembled_board lib st (read_flags st) q" by blast
  then show "map effect_name (plugins (loc_board l)) =
      (if checkbox st ''Enable Compressor'' False then [''Compressor''] else [])
      @ (if checkbox st ''Enable Gain'' True then [''Gain''] else [])
      @ (if checkbox st ''Enable Reverb'' False then [''Reverb''] else [])"
    by (simp add: assembled_names read_flags_def)
qed

theorem chain_follows_checkboxes_witness:
  "plugins_accepted demo_libs everything_ticked (read_flags everything_ticked)
   \<and> (\<exists>b. snd (configure_effects demo_libs everything_ticked
               (read_flags everything_ticked) 44100) = Inr b
          \<and> map effect_name (plugins b) = [''Compressor'', ''Gain'', ''Reverb''])
   \<and> \<not> (\<exists>b. snd (configure_effects demo_libs sliders_at_minimum
                 (read_flags sliders_at_minimum) 44100) = Inr b)"
proof -
  note t = chain_follows_checkboxes [of everything_ticked "read_flags everything_ticked"
      demo_libs 44100]
  note u = chain_follows_checkboxes [of sliders_at_minimum "read_flags sliders_at_minimum"
      demo_libs 44100]
  have f: "enable_compressor (read_flags everything_ticked)"
      "enable_gain (read_flags everything_ticked)"
      "enable_reverb (read_flags everything_ticked)"
    by (simp_all add: read_flags_def everything_ticked_def)
  have a: "plugins_accepted demo_libs everything_ticked (read_flags everything_ticked)"
    by (simp add: plugins_accepted_def selected_compressor_def selected_gain_def
        selected_reverb_def demo_libs_def everything_ticked_def untouched_page_def)
  have n: "\<not> plugins_accepted demo_libs sliders_at_minimum (read_flags sliders_at_minimum)"
    by (simp add: plugins_accepted_def selected_compressor_def demo_libs_def
        sliders_at_minimum_def everything_ticked_def read_flags_def)
  from t a obtain b where b: "snd (configure_effects demo_libs everything_ticked
      (read_flags everything_ticked) 44100) = Inr b"
    by blast
  with t have "map effect_name (plugins b) =
      (if enable_compressor (read_flags everything_ticked) then [''Compressor''] else [])
      @ (if enable_gain (read_flags everything_ticked) then [''Gain''] else [])
      @ (if enable_reverb (read_flags everything_ticked) then [''Reverb''] else [])"
    by blast
  then have "map effect_name (plugins b) = [''Compressor'', ''Gain'', ''Reverb'']"
    by (simp add: f)
  with b have 2: "\<exists>b. snd (configure_effects demo_libs everything_ticked
      (read_flags everything_ticked) 44100) = Inr b
      \<and> map effect_name (plugins b) = [''Compressor'', ''Gain'', ''Reverb'']"
    by auto
  from u n have 3: "\<not> (\<exists>b. snd (configure_effects demo_libs sliders_at_minimum
      (read_flags sliders_at_minimum) 44100) = Inr b)"
    by blast
  show ?thesis
    by (intro conjI) (rule a 2 3)+
qed

text \<open>
  C2. The eight checkboxes of the effects that are declared but not implemented
  (convolution, chorus, distortion, highpass, ladder, limiter, lowpass, phaser) have no
  say in the board: for any flags, the outcome of the assembly is the one with all eight
  switched off, and so are the \<^verbatim>\<open>board.append\<close> calls made; a block that only warns
  makes no such call.
\<close>

theorem unimplemented_effects_append_nothing:
  "snd (configure_effects lib st fl r) =
     snd (configure_effects lib st (without_unimplemented fl) r)
   \<and> filter is_Board_append (fst (configure_effects lib st fl r)) =
     filter is_Board_append (fst (configure_effects lib st (without_unimplemented fl) r))
   \<and> filter is_Board_append (fst (not_yet_implemented enable label)) = []"
  by (simp add: configure_unfold warning_simps without_unimplemented_def
      split: option.splits)

theorem unimplemented_effects_append_nothing_witness:
  "snd (configure_effects demo_libs everything_ticked (read_flags everything_ticked) 44100) =
     snd (configure_effects demo_libs everything_ticked
       \<lparr>enable_convolution = False, enable_compressor = True, enable_chorus = False,
        enable_distortion = False, enable_gain = True, enable_hp = False, enable_ld = False,
        enable_limiter = False, enable_lp = False, enable_phaser = False,
        enable_reverb = True\<rparr> 44100)"
  using unimplemented_effects_append_nothing [of demo_libs everything_ticked
      "read_flags everything_ticked" 44100]
  by (simp add: without_unimplemented_def read_flags_def everything_ticked_def)

text \<open>
  C3. Whichever source is chosen, the clip is asked of \<^verbatim>\<open>librosa.load\<close> once, at
  44100 Hz, and every \<^verbatim>\<open>wavfile.write\<close> of a run is made at 44100 Hz. When the load
  hands back a buffer with its rate, no Pedalboard is constructed with another rate and
  no board with another rate is called. When, further, the loaded clip can be drawn, the
  Pedalboard is constructed once, with that very rate, and the loaded clip is the first
  stream written; and when the plugins are accepted, that board is called, once. The rate
  librosa hands back is the one it was asked for (its \<^verbatim>\<open>sr\<close> argument), so it is
  44100 throughout.
\<close>

theorem sample_rate_consistent:
  "filter is_Librosa_load (fst (main lib st)) = [Librosa_load (chosen_source st) 44100]
   \<and> list_all (\<lambda>w. fst w = 44100) (written (fst (main lib st)))
   \<and> (\<forall>a r. librosa_load lib (chosen_source st) 44100 = Inr (a, r) \<longrightarrow>
         list_all (\<lambda>ev. ev = New_pedalboard [] r) (filter is_New_pedalboard (fst (main lib st)))
         \<and> list_all (\<lambda>c. board_sample_rate (fst c) = r) (rendered (fst (main lib st)))
         \<and> (waveshow lib a r = Inr () \<longrightarrow>
              filter is_New_pedalboard (fst (main lib st)) = [New_pedalboard [] r]
              \<and> take 1 (written (fst (main lib st))) = [(44100, Float_array a)]
              \<and> (plugins_accepted lib st (read_flags st) \<longrightarrow>
                   map (\<lambda>c. board_sample_rate (fst c)) (rendered (fst (main lib st))) = [r])))"
proof (intro conjI allI impI)
  show "filter is_Librosa_load (fst (main lib st)) = [Librosa_load (chosen_source st) 44100]"
    by (rule main_loads)
  show "list_all (\<lambda>w. fst w = 44100) (written (fst (main lib st)))"
    by (rule main_written_rates)
next
  fix a r
  assume l: "librosa_load lib (chosen_source st) 44100 = Inr (a, r)"
  show "list_all (\<lambda>ev. ev = New_pedalboard [] r)
      (filter is_New_pedalboard (fst (main lib st)))"
    by (simp add: main_new_pedalboard [OF l] split: sum.splits)
  show "list_all (\<lambda>c. board_sample_rate (fst c) = r) (rendered (fst (main lib st)))"
    by (simp add: main_rendered_loaded [OF l] assembled_board_def)
  assume w: "waveshow lib a r = Inr ()"
  show "filter is_New_pedalboard (fst (main lib st)) = [New_pedalboard [] r]"
    by (simp add: main_new_pedalboard [OF l] w)
  show "take 1 (written (fst (main lib st))) = [(44100, Float_array a)]"
    by (rule main_written_loaded [OF l w])
  assume "plugins_accepted lib st (read_flags st)"
  then show "map (\<lambda>c. board_sample_rate (fst c)) (rendered (fst (main lib st))) = [r]"
    by (simp add: main_rendered_loaded [OF l] w assembled_board_def)
qed

theorem sample_rate_consistent_witness:
  "librosa_load demo_libs (chosen_source untouched_page) 44100 = Inr ([1 / 2, - 1 / 4], 44100)
   \<and> waveshow demo_libs [1 / 2, - 1 / 4] 44100 = Inr ()
   \<and> plugins_accepted demo_libs untouched_page (read_flags untouched_page)
   \<and> filter is_Librosa_load (fst (main demo_libs untouched_page)) =
       [Librosa_load (chosen_source untouched_page) 44100]
   \<and> filter is_New_pedalboard (fst (main demo_libs untouched_page)) = [New_pedalboard [] 44100]
   \<and> map (\<lambda>c. board_sample_rate (fst c)) (rendered (fst (main demo_libs untouched_page))) =
       [44100]
   \<and> list_all (\<lambda>w. fst w = 44100) (written (fst (main demo_libs untouched_page)))"
proof -
  have l: "librosa_load demo_libs (chosen_source untouched_page) 44100 =
      Inr ([1 / 2, - 1 / 4], 44100)"
    by (simp add: demo_libs_def)
  have w: "waveshow demo_libs [1 / 2, - 1 / 4] 44100 = Inr ()"
    by (simp add: demo_libs_def)
  have p: "plugins_accepted demo_libs untouched_page (read_flags untouched_page)"
    by (simp add: plugins_accepted_def read_flags_def untouched_page_def demo_libs_def
        selected_gain_def)
  note t = sample_rate_consistent [of demo_libs untouched_page]
  note c = t [THEN conjunct2, THEN conjunct2, THEN spec, THEN spec, THEN mp, OF l,
      THEN conjunct2, THEN conjunct2, THEN mp, OF w]
  show ?thesis
    by (intro conjI)
      (rule l w p t [THEN conjunct1] t [THEN conjunct2, THEN conjunct1] c [THEN conjunct1]
        c [THEN conjunct2, THEN conjunct2, THEN mp, OF p])+
qed



text \<open>
  C5. When the uploader hands back nothing, the one load of the run is of the bundled
  example \<^verbatim>\<open>vibeace\<close> (high quality); when it hands back a file, the one load is of that
  file. The buffer the load hands back is the one the rest works on: it is the waveform
  drawn straight after the load and, when that can be drawn, the first stream written and
  played and, when the plugins are accepted, the buffer the board is called on. What
  follows the load does not look at the uploader: two pages with the same checkboxes and
  sliders, whose loads have the same outcome, make the same calls after the load and end
  alike.
\<close>

theorem sample_or_upload:
  "(file_uploader st ''Upload wav file'' [''wav''] = None \<longrightarrow>
      filter is_Librosa_load (fst (main lib st)) =
        [Librosa_load (Example ''vibeace'' True) 44100])
   \<and> (\<forall>f. file_uploader st ''Upload wav file'' [''wav''] = Some f \<longrightarrow>
        filter is_Librosa_load (fst (main lib st)) = [Librosa_load (Uploaded f) 44100])
   \<and> (\<forall>a r. librosa_load lib (chosen_source st) 44100 = Inr (a, r) \<longrightarrow>
        take 2 (after_load (fst (main lib st))) = [Plt_subplots 14 5, Waveshow a r]
        \<and> (waveshow lib a r = Inr () \<longrightarrow>
             take 1 (written (fst (main lib st))) = [(44100, Float_array a)]
             \<and> take 1 (filter is_Audio (widgets_of (fst (main lib st)))) =
                 [Audio (BytesIO 44100 (Float_array a))]
             \<and> (plugins_accepted lib st (read_flags st) \<longrightarrow>
                  map snd (rendered (fst (main lib st))) = [a])))
   \<and> (\<forall>st'. checkbox st' = checkbox st \<and> slider st' = slider st
          \<and> librosa_load lib (chosen_source st') 44100 =
              librosa_load lib (chosen_source st) 44100 \<longrightarrow>
        after_load (fst (main lib st')) = after_load (fst (main lib st))
        \<and> snd (main lib st') = snd (main lib st))"
proof (intro conjI allI impI)
  assume "file_uploader st ''Upload wav file'' [''wav''] = None"
  then show "filter is_Librosa_load (fst (main lib st)) =
      [Librosa_load (Example ''vibeace'' True) 44100]"
    by (simp add: main_loads chosen_source_def)
next
  fix f
  assume "file_uploader st ''Upload wav file'' [''wav''] = Some f"
  then show "filter is_Librosa_load (fst (main lib st)) = [Librosa_load (Uploaded f) 44100]"
    by (simp add: main_loads chosen_source_def)
next
  fix a r
  assume l: "librosa_load lib (chosen_source st) 44100 = Inr (a, r)"
  show "take 2 (after_load (fst (main lib st))) = [Plt_subplots 14 5, Waveshow a r]"
    by (rule main_draws_loaded [OF l])
  assume w: "waveshow lib a r = Inr ()"
  show "take 1 (written (fst (main lib st))) = [(44100, Float_array a)]"
    by (rule main_written_loaded [OF l w])
  show "take 1 (filter is_Audio (widgets_of (fst (main lib st)))) =
      [Audio (BytesIO 44100 (Float_array a))]"
    by (rule main_plays_loaded [OF l w])
  assume "plugins_accepted lib st (read_flags st)"
  then show "map snd (rendered (fst (main lib st))) = [a]"
    by (simp add: main_rendered_loaded [OF l] w)
next
  fix st'
  assume h: "checkbox st' = checkbox st \<and> slider st' = slider st
      \<and> librosa_load lib (chosen_source st') 44100 = librosa_load lib (chosen_source st) 44100"
  from main_after_load [of lib st] obtain rest
    where 1: "fst (main lib st) = checkbox_trace @ import_trace st @ rest"
      and 2: "main lib st' = (checkbox_trace @ import_trace st' @ rest, snd (main lib st))"
    using h by blast
  show "after_load (fst (main lib st')) = after_load (fst (main lib st))"
    by (simp add: 1 2 after_load_main_prefix)
  show "snd (main lib st') = snd (main lib st)"
    by (simp add: 2)
qed

theorem sample_or_upload_witness:
  "file_uploader untouched_page ''Upload wav file'' [''wav''] = None
   \<and> filter is_Librosa_load (fst (main demo_libs untouched_page)) =
       [Librosa_load (Example ''vibeace'' True) 44100]
   \<and> file_uploader uploaded_page ''Upload wav file'' [''wav''] = Some (UploadedFile ''clip.wav'')
   \<and> filter is_Librosa_load (fst (main demo_libs uploaded_page)) =
       [Librosa_load (Uploaded (UploadedFile ''clip.wav'')) 44100]
   \<and> librosa_load demo_libs (chosen_source untouched_page) 44100 =
       Inr ([1 / 2, - 1 / 4], 44100)
   \<and> waveshow demo_libs [1 / 2, - 1 / 4] 44100 = Inr ()
   \<and> plugins_accepted demo_libs untouched_page (read_flags untouched_page)
   \<and> take 2 (after_load (fst (main demo_libs untouched_page))) =
       [Plt_subplots 14 5, Waveshow [1 / 2, - 1 / 4] 44100]
   \<and> map snd (rendered (fst (main demo_libs untouched_page))) = [[1 / 2, - 1 / 4]]
   \<and> after_load (fst (main demo_libs uploaded_page)) =
       after_load (fst (main demo_libs untouched_page))
   \<and> snd (main demo_libs uploaded_page) = snd (main demo_libs untouched_page)"
proof -
  note a = sample_or_upload [of untouched_page demo_libs]
  note b = sample_or_upload [of uploaded_page demo_libs]
  have n: "file_uploader untouched_page ''Upload wav file'' [''wav''] = None"
    by (simp add: untouched_page_def)
  have u: "file_uploader uploaded_page ''Upload wav file'' [''wav''] =
      Some (UploadedFile ''clip.wav'')"
    by (simp add: uploaded_page_def)
  have l: "librosa_load demo_libs (chosen_source untouched_page) 44100 =
      Inr ([1 / 2, - 1 / 4], 44100)"
    by (simp add: demo_libs_def)
  have w: "waveshow demo_libs [1 / 2, - 1 / 4] 44100 = Inr ()"
    by (simp add: demo_libs_def)
  have p: "plugins_accepted demo_libs untouched_page (read_flags untouched_page)"
    by (simp add: plugins_accepted_def read_flags_def untouched_page_def demo_libs_def
        selected_gain_def)
  have s: "checkbox uploaded_page = checkbox untouched_page
      \<and> slider uploaded_page = slider untouched_page
      \<and> librosa_load demo_libs (chosen_source uploaded_page) 44100 =
          librosa_load demo_libs (chosen_source untouched_page) 44100"
    by (simp add: uploaded_page_def demo_libs_def)
  note 1 = a [THEN conjunct1, THEN mp, OF n]
  note 2 = b [THEN conjunct2, THEN conjunct1, THEN spec, THEN mp, OF u]
  note 3 = a [THEN conjunct2, THEN conjunct2, THEN conjunct1, THEN spec, THEN spec, THEN mp,
      OF l]
  note 4 = 3 [THEN conjunct2, THEN mp, OF w, THEN conjunct2, THEN conjunct2, THEN mp, OF p]
  note 5 = a [THEN conjunct2, THEN conjunct2, THEN conjunct2, THEN spec, of uploaded_page,
      THEN mp, OF s]
  show ?thesis
    by (intro conjI)
      (rule n 1 u 2 l w p 3 [THEN conjunct1] 4 5 [THEN conjunct1] 5 [THEN conjunct2])+
qed

text \<open>
  C6. Provided the page's sliders keep within their bounds (what a slider hands back lies
  between its minimum and its maximum), every plugin the script constructs, and so every
  plugin of a board it assembles, has its parameters within the bounds declared to the
  slider they come from: threshold and gain in [-24, 24] dB, ratio in [0, 10], attack in
  [0.1, 100] ms, release in [0.1, 1000] ms, the six reverb parameters in [0, 1]. When the
  assembly returns, the plugins of the board are the plugins constructed, the sliders
  shown are declared with exactly these bounds, and the default each is given is the field
  of the plugin built with the library's defaults.
\<close>

theorem slider_parameters_in_bounds:
  assumes "slider_in_range st"
  shows "list_all within_slider_bounds (constructed (fst (configure_effects lib st fl r)))
    \<and> (\<forall>b. snd (configure_effects lib st fl r) = Inr b \<longrightarrow>
          b = assembled_board lib st fl r
          \<and> constructed (fst (configure_effects lib st fl r)) = plugins b
          \<and> list_all within_slider_bounds (plugins b)
          \<and> filter is_Slider (widgets_of (fst (configure_effects lib st fl r))) =
              (if enable_compressor fl
               then [Slider ''Threshold in dB'' (- 24) 24 (threshold_db (Compressor_default lib)),
                     Slider ''Ratio'' 0 10 (ratio (Compressor_default lib)),
                     Slider ''Attack in ms'' (1 / 10) 100 (attack_ms (Compressor_default lib)),
                     Slider ''Release in ms'' (1 / 10) 1000
                       (release_ms (Compressor_default lib))]
               else [])
              @ (if enable_gain fl
                 then [Slider ''Gain in dB'' (- 24) 24 (gain_db (Gain_default lib))]
                 else [])
              @ (if enable_reverb fl
                 then [Slider ''Room Size'' 0 1 (room_size (Reverb_default lib)),
                       Slider ''Damping'' 0 1 (damping (Reverb_default lib)),
                       Slider ''Wet Level'' 0 1 (wet_level (Reverb_default lib)),
                       Slider ''Dry Level'' 0 1 (dry_level (Reverb_default lib)),
                       Slider ''Width'' 0 1 (width (Reverb_default lib)),
                       Slider ''Freeze mode'' 0 1 (freeze_mode (Reverb_default lib))]
                 else []))"
proof (intro conjI allI impI)
  show "list_all within_slider_bounds (constructed (fst (configure_effects lib st fl r)))"
    by (simp add: configure_constructed selected_within_bounds [OF assms]
        del: within_slider_bounds.simps)
next
  fix b
  assume "snd (configure_effects lib st fl r) = Inr b"
  then have acc: "plugins_accepted lib st fl" and b: "b = assembled_board lib st fl r"
    by (simp_all add: configure_effects_returns_iff)
  show "b = assembled_board lib st fl r"
    by (rule b)
  from acc show "constructed (fst (configure_effects lib st fl r)) = plugins b"
    by (simp add: b configure_constructed assembled_board_def plugins_accepted_def)
  show "list_all within_slider_bounds (plugins b)"
    by (simp add: b assembled_board_def selected_within_bounds [OF assms]
        del: within_slider_bounds.simps)
  show "filter is_Slider (widgets_of (fst (configure_effects lib st fl r))) =
      (if enable_compressor fl
       then [Slider ''Threshold in dB'' (- 24) 24 (threshold_db (Compressor_default lib)),
             Slider ''Ratio'' 0 10 (ratio (Compressor_default lib)),
             Slider ''Attack in ms'' (1 / 10) 100 (attack_ms (Compressor_default lib)),
             Slider ''Release in ms'' (1 / 10) 1000
               (release_ms (Compressor_default lib))]
       else [])
      @ (if enable_gain fl
         then [Slider ''Gain in dB'' (- 24) 24 (gain_db (Gain_default lib))]
         else [])
      @ (if enable_reverb fl
         then [Slider ''Room Size'' 0 1 (room_size (Reverb_default lib)),
               Slider ''Damping'' 0 1 (damping (Reverb_default lib)),
               Slider ''Wet Level'' 0 1 (wet_level (Reverb_default lib)),
               Slider ''Dry Level'' 0 1 (dry_level (Reverb_default lib)),
               Slider ''Width'' 0 1 (width (Reverb_default lib)),
               Slider ''Freeze mode'' 0 1 (freeze_mode (Reverb_default lib))]
         else [])"
    by (simp add: configure_effects_accepted [OF acc] call_defs warning_simps trace_append)
qed

theorem slider_parameters_in_bounds_witness:
  "slider_in_range everything_ticked
   \<and> snd (configure_effects demo_libs everything_ticked (read_flags everything_ticked) 44100) =
       Inr (assembled_board demo_libs everything_ticked (read_flags everything_ticked) 44100)
   \<and> list_all within_slider_bounds
       (plugins (assembled_board demo_libs everything_ticked (read_flags everything_ticked) 44100))
   \<and> map effect_name
       (plugins (assembled_board demo_libs everything_ticked (read_flags everything_ticked) 44100)) =
       [''Compressor'', ''Gain'', ''Reverb'']
   \<and> slider_in_range sliders_at_minimum
   \<and> list_all within_slider_bounds
       (constructed (fst (configure_effects demo_libs sliders_at_minimum
          (read_flags sliders_at_minimum) 44100)))"
proof -
  have s: "slider_in_range everything_ticked"
    by (simp add: slider_in_range_def everything_ticked_def untouched_page_def)
  have m: "slider_in_range sliders_at_minimum"
    by (simp add: slider_in_range_def sliders_at_minimum_def)
  have c: "snd (configure_effects demo_libs everything_ticked
      (read_flags everything_ticked) 44100) =
      Inr (assembled_board demo_libs everything_ticked (read_flags everything_ticked) 44100)"
    by (simp add: configure_effects_returns_iff plugins_accepted_def selected_compressor_def
        selected_gain_def selected_reverb_def demo_libs_def everything_ticked_def
        untouched_page_def)
  note t = slider_parameters_in_bounds [OF s, of demo_libs "read_flags everything_ticked" 44100]
  note u = slider_parameters_in_bounds [OF m, of demo_libs "read_flags sliders_at_minimum" 44100]
  note b = t [THEN conjunct2, THEN spec, THEN mp, OF c]
  have n: "map effect_name
      (plugins (assembled_board demo_libs everything_ticked (read_flags everything_ticked) 44100)) =
      [''Compressor'', ''Gain'', ''Reverb'']"
    by (simp add: assembled_board_def read_flags_def everything_ticked_def)
  show ?thesis
    by (intro conjI)
      (rule s c b [THEN conjunct2, THEN conjunct2, THEN conjunct1] n m u [THEN conjunct1])+
qed

text \<open>
  C7. The script catches nothing. When the load raises, \<open>main\<close> ends with that same
  exception and the load is its last call: nothing has been plotted or written and no
  download is offered. When the load returns, the loaded clip can be drawn, the board is
  assembled and the call of the board raises, \<open>main\<close> ends with that same exception and
  the call of the board is its last call: what was shown of the loaded clip before it
  stays (one plot, one WAV stream), and nothing of the result is plotted, written or
  offered for download.
\<close>

theorem exceptions_propagate:
  "(\<forall>e. librosa_load lib (chosen_source st) 44100 = Inl e \<longrightarrow>
      snd (main lib st) = Inl e
      \<and> fst (main lib st) = fst (sidebar_checkboxes st) @ import_trace st
      \<and> last (fst (main lib st)) = Librosa_load (chosen_source st) 44100
      \<and> written (fst (main lib st)) = []
      \<and> filter is_Pyplot (widgets_of (fst (main lib st))) = []
      \<and> filter is_Download_button (widgets_of (fst (main lib st))) = [])
   \<and> (\<forall>a r b e. librosa_load lib (chosen_source st) 44100 = Inr (a, r)
          \<and> waveshow lib a r = Inr ()
          \<and> snd (configure_effects lib st (read_flags st) r) = Inr b
          \<and> process lib b a = Inl e \<longrightarrow>
        snd (main lib st) = Inl e
        \<and> fst (main lib st) =
            fst (sidebar_checkboxes st) @ import_trace st @ loaded_trace a r
            @ fst (configure_effects lib st (read_flags st) r)
            @ [St Main_page (Subheader '':headphones: Pedalboard output''), Board_call b a]
        \<and> last (fst (main lib st)) = Board_call b a
        \<and> written (fst (main lib st)) = [(44100, Float_array a)]
        \<and> filter is_Pyplot (widgets_of (fst (main lib st))) = [Pyplot (Figure 14 5 a r)]
        \<and> filter is_Download_button (widgets_of (fst (main lib st))) = [])"
proof (intro conjI allI impI)
  fix e
  assume "librosa_load lib (chosen_source st) 44100 = Inl e"
  then have m: "main lib st = (checkbox_trace @ import_trace st, Inl e)"
    by (rule main_load_fails)
  show "snd (main lib st) = Inl e"
    by (simp add: m)
  show "fst (main lib st) = fst (sidebar_checkboxes st) @ import_trace st"
    by (simp add: m sidebar_checkboxes_eq)
  show "last (fst (main lib st)) = Librosa_load (chosen_source st) 44100"
    by (simp add: m import_trace_def)
  show "written (fst (main lib st)) = []"
    by (simp add: m call_defs)
  show "filter is_Pyplot (widgets_of (fst (main lib st))) = []"
    by (simp add: m call_defs)
  show "filter is_Download_button (widgets_of (fst (main lib st))) = []"
    by (simp add: m call_defs)
next
  fix a r b e
  assume h: "librosa_load lib (chosen_source st) 44100 = Inr (a, r)
      \<and> waveshow lib a r = Inr ()
      \<and> snd (configure_effects lib st (read_flags st) r) = Inr b
      \<and> process lib b a = Inl e"
  then have acc: "plugins_accepted lib st (read_flags st)"
      and b: "b = assembled_board lib st (read_flags st) r"
    by (simp_all add: configure_effects_returns_iff)
  from h have m: "main lib st =
     (checkbox_trace @ import_trace st @ loaded_trace a r
        @ configure_trace lib st (read_flags st) r @ render_trace b a, Inl e)"
    using main_render_fails [of lib st a r e] acc by (simp add: b)
  show "snd (main lib st) = Inl e"
    by (simp add: m)
  show "fst (main lib st) =
      fst (sidebar_checkboxes st) @ import_trace st @ loaded_trace a r
      @ fst (configure_effects lib st (read_flags st) r)
      @ [St Main_page (Subheader '':headphones: Pedalboard output''), Board_call b a]"
    by (simp add: m sidebar_checkboxes_eq configure_effects_accepted [OF acc] render_trace_def)
  show "last (fst (main lib st)) = Board_call b a"
    by (simp add: m render_trace_def)
  show "written (fst (main lib st)) = [(44100, Float_array a)]"
    by (simp add: m call_defs warning_simps trace_append)
  show "filter is_Pyplot (widgets_of (fst (main lib st))) = [Pyplot (Figure 14 5 a r)]"
    by (simp add: m call_defs warning_simps trace_append)
  show "filter is_Download_button (widgets_of (fst (main lib st))) = []"
    by (simp add: m call_defs warning_simps trace_append)
qed

theorem exceptions_propagate_witness:
  "librosa_load bad_file_libs (chosen_source untouched_page) 44100 = Inl (Exception ''bad file'')
   \<and> snd (main bad_file_libs untouched_page) = Inl (Exception ''bad file'')
   \<and> last (fst (main bad_file_libs untouched_page)) =
       Librosa_load (chosen_source untouched_page) 44100
   \<and> librosa_load failing_render_libs (chosen_source untouched_page) 44100 =
       Inr ([1 / 2, - 1 / 4], 44100)
   \<and> waveshow failing_render_libs [1 / 2, - 1 / 4] 44100 = Inr ()
   \<and> process failing_render_libs \<lparr>plugins = [Gain \<lparr>gain_db = 1\<rparr>], board_sample_rate = 44100\<rparr>
         [1 / 2, - 1 / 4] = Inl (Exception ''render failed'')
   \<and> snd (main failing_render_libs untouched_page) = Inl (Exception ''render failed'')
   \<and> last (fst (main failing_render_libs untouched_page)) =
       Board_call \<lparr>plugins = [Gain \<lparr>gain_db = 1\<rparr>], board_sample_rate = 44100\<rparr>
         [1 / 2, - 1 / 4]"
proof -
  let ?b = "\<lparr>plugins = [Gain \<lparr>gain_db = 1\<rparr>], board_sample_rate = 44100\<rparr>"
  have 1: "librosa_load bad_file_libs (chosen_source untouched_page) 44100 =
      Inl (Exception ''bad file'')"
    by (simp add: bad_file_libs_def)
  have 2: "librosa_load failing_render_libs (chosen_source untouched_page) 44100 =
      Inr ([1 / 2, - 1 / 4], 44100)"
    by (simp add: failing_render_libs_def demo_libs_def)
  have w: "waveshow failing_render_libs [1 / 2, - 1 / 4] 44100 = Inr ()"
    by (simp add: failing_render_libs_def demo_libs_def)
  have 3: "snd (configure_effects failing_render_libs untouched_page
      (read_flags untouched_page) 44100) = Inr ?b"
    by (simp add: configure_effects_returns_iff plugins_accepted_def assembled_board_def
        read_flags_def untouched_page_def selected_gain_def failing_render_libs_def
        demo_libs_def)
  have 4: "process failing_render_libs ?b [1 / 2, - 1 / 4] = Inl (Exception ''render failed'')"
    by (simp add: failing_render_libs_def)
  note l = exceptions_propagate [of bad_file_libs untouched_page, THEN conjunct1, THEN spec,
      THEN mp, OF 1]
  have 234: "librosa_load failing_render_libs (chosen_source untouched_page) 44100 =
      Inr ([1 / 2, - 1 / 4], 44100)
      \<and> waveshow failing_render_libs [1 / 2, - 1 / 4] 44100 = Inr ()
      \<and> snd (configure_effects failing_render_libs untouched_page
            (read_flags untouched_page) 44100) = Inr ?b
      \<and> process failing_render_libs ?b [1 / 2, - 1 / 4] = Inl (Exception ''render failed'')"
    by (intro conjI) (rule 2 w 3 4)+
  note r = exceptions_propagate [of failing_render_libs untouched_page, THEN conjunct2,
      THEN spec, THEN spec, THEN spec, THEN spec, THEN mp, OF 234]
  show ?thesis
    by (intro conjI)
      (rule 1 2 w 4 l [THEN conjunct1] l [THEN conjunct2, THEN conjunct2, THEN conjunct1]
        r [THEN conjunct1] r [THEN conjunct2, THEN conjunct2, THEN conjunct1])+
qed

text \<open>
  C8. Every run shows one file uploader, the one that accepts the type \<^verbatim>\<open>wav\<close> only. A run
  that returns (the load, both drawings, the constructors and the render return) writes
  three WAV streams with \<^verbatim>\<open>wavfile.write\<close> (the loaded clip for its
  player, the result for its player and for the download) and offers one download: the
  WAV stream of the result, under the file name \<^verbatim>\<open>output.wav\<close> with the MIME type
  \<^verbatim>\<open>audio/wave\<close>. A run that ends with an exception offers no download.
\<close>

theorem wav_only:
  "filter is_File_uploader (widgets_of (fst (main lib st))) =
     [File_uploader ''Upload wav file'' [''wav'']]
   \<and> (\<forall>a r b eff a'. librosa_load lib (chosen_source st) 44100 = Inr (a, r)
          \<and> waveshow lib a r = Inr ()
          \<and> snd (configure_effects lib st (read_flags st) r) = Inr b
          \<and> process lib b a = Inr (eff, a')
          \<and> waveshow lib eff r = Inr () \<longrightarrow>
        filter is_Download_button (widgets_of (fst (main lib st))) =
          [Download_button ''Dowload effected'' (BytesIO 44100 (Float_array eff))
             ''output.wav'' ''audio/wave'']
        \<and> filter is_Audio (widgets_of (fst (main lib st))) =
          [Audio (BytesIO 44100 (Float_array a)), Audio (BytesIO 44100 (Float_array eff))]
        \<and> written (fst (main lib st)) =
          [(44100, Float_array a), (44100, Float_array eff), (44100, Float_array eff)])
   \<and> (\<forall>e. snd (main lib st) = Inl e \<longrightarrow>
        filter is_Download_button (widgets_of (fst (main lib st))) = [])"
proof (intro conjI allI impI)
  show "filter is_File_uploader (widgets_of (fst (main lib st))) =
      [File_uploader ''Upload wav file'' [''wav'']]"
    by (rule main_uploaders)
next
  fix a r b eff a'
  assume h: "librosa_load lib (chosen_source st) 44100 = Inr (a, r)
      \<and> waveshow lib a r = Inr ()
      \<and> snd (configure_effects lib st (read_flags st) r) = Inr b
      \<and> process lib b a = Inr (eff, a')
      \<and> waveshow lib eff r = Inr ()"
  then have acc: "plugins_accepted lib st (read_flags st)"
      and b: "b = assembled_board lib st (read_flags st) r"
    by (simp_all add: configure_effects_returns_iff)
  from h have m: "fst (main lib st) =
     checkbox_trace @ import_trace st @ loaded_trace a r
       @ configure_trace lib st (read_flags st) r @ render_trace b a @ output_trace eff r"
    using main_returns [of lib st a r eff a'] acc by (simp add: b)
  show "filter is_Download_button (widgets_of (fst (main lib st))) =
      [Download_button ''Dowload effected'' (BytesIO 44100 (Float_array eff))
         ''output.wav'' ''audio/wave'']"
    by (simp add: m call_defs warning_simps trace_append)
  show "filter is_Audio (widgets_of (fst (main lib st))) =
      [Audio (BytesIO 44100 (Float_array a)), Audio (BytesIO 44100 (Float_array eff))]"
    by (simp add: m call_defs warning_simps trace_append)
  show "written (fst (main lib st)) =
      [(44100, Float_array a), (44100, Float_array eff), (44100, Float_array eff)]"
    by (simp add: m call_defs warning_simps trace_append)
next
  fix e
  assume "snd (main lib st) = Inl e"
  then show "filter is_Download_button (widgets_of (fst (main lib st))) = []"
    by (rule main_raises_no_download)
qed

theorem wav_only_witness:
  "librosa_load demo_libs (chosen_source untouched_page) 44100 = Inr ([1 / 2, - 1 / 4], 44100)
   \<and> waveshow demo_libs [1 / 2, - 1 / 4] 44100 = Inr ()
   \<and> process demo_libs \<lparr>plugins = [Gain \<lparr>gain_db = 1\<rparr>], board_sample_rate = 44100\<rparr>
         [1 / 2, - 1 / 4] = Inr ([1 / 4, - 1 / 8], [1 / 2, - 1 / 4])
   \<and> waveshow demo_libs [1 / 4, - 1 / 8] 44100 = Inr ()
   \<and> filter is_File_uploader (widgets_of (fst (main demo_libs untouched_page))) =
       [File_uploader ''Upload wav file'' [''wav'']]
   \<and> filter is_Download_button (widgets_of (fst (main demo_libs untouched_page))) =
       [Download_button ''Dowload effected'' (BytesIO 44100 (Float_array [1 / 4, - 1 / 8]))
          ''output.wav'' ''audio/wave'']
   \<and> snd (main bad_file_libs untouched_page) = Inl (Exception ''bad file'')
   \<and> filter is_Download_button (widgets_of (fst (main bad_file_libs untouched_page))) = []"
proof -
  let ?b = "\<lparr>plugins = [Gain \<lparr>gain_db = 1\<rparr>], board_sample_rate = 44100\<rparr>"
  have 1: "librosa_load demo_libs (chosen_source untouched_page) 44100 =
      Inr ([1 / 2, - 1 / 4], 44100)"
    by (simp add: demo_libs_def)
  have w1: "waveshow demo_libs [1 / 2, - 1 / 4] 44100 = Inr ()"
    by (simp add: demo_libs_def)
  have 2: "snd (configure_effects demo_libs untouched_page (read_flags untouched_page) 44100) =
      Inr ?b"
    by (simp add: configure_effects_returns_iff plugins_accepted_def assembled_board_def
        read_flags_def untouched_page_def selected_gain_def demo_libs_def)
  have 3: "process demo_libs ?b [1 / 2, - 1 / 4] = Inr ([1 / 4, - 1 / 8], [1 / 2, - 1 / 4])"
    by (simp add: demo_libs_def)
  have w2: "waveshow demo_libs [1 / 4, - 1 / 8] 44100 = Inr ()"
    by (simp add: demo_libs_def)
  have 123: "librosa_load demo_libs (chosen_source untouched_page) 44100 =
      Inr ([1 / 2, - 1 / 4], 44100)
      \<and> waveshow demo_libs [1 / 2, - 1 / 4] 44100 = Inr ()
      \<and> snd (configure_effects demo_libs untouched_page (read_flags untouched_page) 44100) =
          Inr ?b
      \<and> process demo_libs ?b [1 / 2, - 1 / 4] = Inr ([1 / 4, - 1 / 8], [1 / 2, - 1 / 4])
      \<and> waveshow demo_libs [1 / 4, - 1 / 8] 44100 = Inr ()"
    by (intro conjI) (rule 1 w1 2 3 w2)+
  have 4: "snd (main bad_file_libs untouched_page) = Inl (Exception ''bad file'')"
    by (simp add: main_load_fails bad_file_libs_def)
  note t = wav_only [of demo_libs untouched_page]
  note d = t [THEN conjunct2, THEN conjunct1, THEN spec, THEN spec, THEN spec, THEN spec,
      THEN spec, THEN mp, OF 123]
  note n = wav_only [of bad_file_libs untouched_page, THEN conjunct2, THEN conjunct2,
      THEN spec, THEN mp, OF 4]
  show ?thesis
    by (intro conjI) (rule 1 w1 3 w2 t [THEN conjunct1] d [THEN conjunct1] 4 n)+
qed

text \<open>
  C9. On a buffer that has samples and whose samples are all zero, the maximum of the
  absolute values is 0, every sample is divided by that 0 (the quotient 0/0 is nan), and no
  entry of the int16 result is defined. On a buffer with a sample that is not zero, the
  function returns an array of the same length whose every entry is defined and lies
  between -32768 and 32767. (On the empty buffer \<^verbatim>\<open>np.max\<close> raises ValueError before any
  division.)
\<close>

theorem normalize_16_bit_range:
  "(a \<noteq> [] \<and> list_all (\<lambda>x. x = 0) a \<longrightarrow>
      np_max (map abs a) = Inr 0
      \<and> map (\<lambda>x. np_divide x 0) a = replicate (length a) NaN
      \<and> snd (normalize_16_bit a) = Inr (replicate (length a) None))
   \<and> (\<not> list_all (\<lambda>x. x = 0) a \<longrightarrow>
        (\<exists>ys. snd (normalize_16_bit a) = Inr (map Some ys)
              \<and> length ys = length a
              \<and> list_all (\<lambda>y. - 32768 \<le> y \<and> y \<le> 32767) ys))
   \<and> snd (normalize_16_bit []) = Inl (Exception ''ValueError'')"
proof (intro conjI impI)
  assume z: "a \<noteq> [] \<and> list_all (\<lambda>x. x = 0) a"
  then have zero: "\<And>x. x \<in> set a \<Longrightarrow> x = 0"
    by (simp add: list_all_iff)
  from z show m: "np_max (map abs a) = Inr 0"
    by (simp add: np_max_abs_zero)
  show "map (\<lambda>x. np_divide x 0) a = replicate (length a) NaN"
    by (rule map_eq_replicate) (simp add: zero np_divide_def)
  have "map (\<lambda>x. np_int16 (np_multiply (np_multiply (np_divide x 0) 32767) (9 / 10))) a =
      replicate (length a) None"
    by (rule map_eq_replicate) (simp add: zero np_divide_def)
  then show "snd (normalize_16_bit a) = Inr (replicate (length a) None)"
    by (simp add: normalize_16_bit_snd m)
next
  assume "\<not> list_all (\<lambda>x. x = 0) a"
  from np_max_abs_pos [OF this] obtain m where m: "np_max (map abs a) = Inr m" "0 < m"
      and le: "\<And>x. x \<in> set a \<Longrightarrow> \<bar>x\<bar> \<le> m"
    by blast
  let ?f = "\<lambda>x. np_int16 (np_multiply (np_multiply (np_divide x m) 32767) (9 / 10))"
  have s: "\<And>x. x \<in> set a \<Longrightarrow>
      \<exists>y. ?f x = Some y \<and> - 32768 \<le> y \<and> y \<le> 32767"
    using scaled_sample [OF m(2) le] by blast
  let ?ys = "map (\<lambda>x. the (?f x)) a"
  have e: "\<And>x. x \<in> set a \<Longrightarrow> Some (the (?f x)) = ?f x"
  proof -
    fix x
    assume "x \<in> set a"
    from s [OF this] obtain y where "?f x = Some y" by blast
    then show "Some (the (?f x)) = ?f x" by simp
  qed
  have "map Some ?ys = map ?f a"
    by (simp add: e)
  moreover have "list_all (\<lambda>y. - 32768 \<le> y \<and> y \<le> 32767) ?ys"
    using s by (fastforce simp: list_all_iff)
  ultimately have "snd (normalize_16_bit a) = Inr (map Some ?ys) \<and> length ?ys = length a
      \<and> list_all (\<lambda>y. - 32768 \<le> y \<and> y \<le> 32767) ?ys"
    by (simp add: normalize_16_bit_snd m(1))
  then show "\<exists>ys. snd (normalize_16_bit a) = Inr (map Some ys) \<and> length ys = length a
      \<and> list_all (\<lambda>y. - 32768 \<le> y \<and> y \<le> 32767) ys"
    by blast
next
  show "snd (normalize_16_bit []) = Inl (Exception ''ValueError'')"
    by (simp add: normalize_16_bit_snd np_max_def)
qed

theorem normalize_16_bit_range_witness:
  "snd (normalize_16_bit [0, 0]) = Inr [None, None]
   \<and> (\<exists>ys. snd (normalize_16_bit [1 / 2, - 1, 1 / 4]) = Inr (map Some ys)
          \<and> length ys = length [1 / 2, - 1, 1 / 4 :: real]
          \<and> list_all (\<lambda>y. - 32768 \<le> y \<and> y \<le> 32767) ys)
   \<and> snd (normalize_16_bit [1 / 2, - 1, 1 / 4]) = Inr [Some 14745, Some (- 29490), Some 7372]"
proof -
  have z: "[0, 0::real] \<noteq> [] \<and> list_all (\<lambda>x. x = 0) [0, 0::real]"
    by simp
  have n: "\<not> list_all (\<lambda>x. x = 0) [1 / 2, - 1, 1 / 4 :: real]"
    by simp
  from normalize_16_bit_range [of "[0, 0]", THEN conjunct1, THEN mp, OF z]
  have 1: "snd (normalize_16_bit [0, 0]) = Inr [None, None]"
    by (simp add: numeral_2_eq_2)
  from normalize_16_bit_range [of "[1 / 2, - 1, 1 / 4]", THEN conjunct2, THEN conjunct1,
      THEN mp, OF n]
  have 2: "\<exists>ys. snd (normalize_16_bit [1 / 2, - 1, 1 / 4]) = Inr (map Some ys)
      \<and> length ys = length [1 / 2, - 1, 1 / 4 :: real]
      \<and> list_all (\<lambda>y. - 32768 \<le> y \<and> y \<le> 32767) ys" .
  have 3: "snd (normalize_16_bit [1 / 2, - 1, 1 / 4]) =
      Inr [Some 14745, Some (- 29490), Some 7372]"
    by (simp add: normalize_16_bit_snd np_max_def np_divide_def trunc_def)
  from 1 2 3 show ?thesis by blast
qed

text \<open>
  C10. The default of \<^verbatim>\<open>normalize_16\<close> is False, and with it \<^verbatim>\<open>_audio_to_virtualfile\<close>
  makes one call, the \<^verbatim>\<open>wavfile.write\<close> of the buffer as it is at 44100 Hz, and returns
  that stream; with True it would start by calling numpy. No run of \<open>main\<close> makes any of
  the numpy calls of \<^verbatim>\<open>_normalize_16_bit\<close>, and every array a run writes is a float array.
  A run that returns writes three streams, one per call site: the loaded buffer and,
  twice, the result, each unchanged.
\<close>

theorem normalization_never_applied:
  "normalize_16_default = False
   \<and> audio_to_virtualfile a normalize_16_default =
       ([Wavfile_write 44100 (Float_array a)], Inr (BytesIO 44100 (Float_array a)))
   \<and> take 1 (fst (audio_to_virtualfile a True)) = [Np_abs a]
   \<and> filter is_numpy (fst (main lib st)) = []
   \<and> list_all (\<lambda>w. is_Float_array (snd w)) (written (fst (main lib st)))
   \<and> (\<forall>b r c eff b'. librosa_load lib (chosen_source st) 44100 = Inr (b, r)
          \<and> waveshow lib b r = Inr ()
          \<and> snd (configure_effects lib st (read_flags st) r) = Inr c
          \<and> process lib c b = Inr (eff, b')
          \<and> waveshow lib eff r = Inr () \<longrightarrow>
        written (fst (main lib st)) =
          [(44100, Float_array b), (44100, Float_array eff), (44100, Float_array eff)])"
proof (intro conjI allI impI)
  show "normalize_16_default = False"
    by (simp add: normalize_16_default_def)
  show "audio_to_virtualfile a normalize_16_default =
      ([Wavfile_write 44100 (Float_array a)], Inr (BytesIO 44100 (Float_array a)))"
    by (simp add: normalize_16_default_def audio_to_virtualfile_False)
  show "take 1 (fst (audio_to_virtualfile a True)) = [Np_abs a]"
    by (rule audio_to_virtualfile_True_calls_numpy)
  show "filter is_numpy (fst (main lib st)) = []"
    by (rule main_numpy_free)
  show "list_all (\<lambda>w. is_Float_array (snd w)) (written (fst (main lib st)))"
    by (rule main_writes_floats)
next
  fix b r c eff b'
  assume h: "librosa_load lib (chosen_source st) 44100 = Inr (b, r)
      \<and> waveshow lib b r = Inr ()
      \<and> snd (configure_effects lib st (read_flags st) r) = Inr c
      \<and> process lib c b = Inr (eff, b')
      \<and> waveshow lib eff r = Inr ()"
  then have acc: "plugins_accepted lib st (read_flags st)"
      and c: "c = assembled_board lib st (read_flags st) r"
    by (simp_all add: configure_effects_returns_iff)
  from h have m: "fst (main lib st) =
     checkbox_trace @ import_trace st @ loaded_trace b r
       @ configure_trace lib st (read_flags st) r @ render_trace c b @ output_trace eff r"
    using main_returns [of lib st b r eff b'] acc by (simp add: c)
  show "written (fst (main lib st)) =
      [(44100, Float_array b), (44100, Float_array eff), (44100, Float_array eff)]"
    by (simp add: m call_defs warning_simps trace_append)
qed

theorem normalization_never_applied_witness:
  "librosa_load demo_libs (chosen_source untouched_page) 44100 = Inr ([1 / 2, - 1 / 4], 44100)
   \<and> waveshow demo_libs [1 / 2, - 1 / 4] 44100 = Inr ()
   \<and> process demo_libs \<lparr>plugins = [Gain \<lparr>gain_db = 1\<rparr>], board_sample_rate = 44100\<rparr>
         [1 / 2, - 1 / 4] = Inr ([1 / 4, - 1 / 8], [1 / 2, - 1 / 4])
   \<and> waveshow demo_libs [1 / 4, - 1 / 8] 44100 = Inr ()
   \<and> filter is_numpy (fst (main demo_libs untouched_page)) = []
   \<and> written (fst (main demo_libs untouched_page)) =
       [(44100, Float_array [1 / 2, - 1 / 4]),
        (44100, Float_array [1 / 4, - 1 / 8]),
        (44100, Float_array [1 / 4, - 1 / 8])]"
proof -
  let ?b = "\<lparr>plugins = [Gain \<lparr>gain_db = 1\<rparr>], board_sample_rate = 44100\<rparr>"
  have 1: "librosa_load demo_libs (chosen_source untouched_page) 44100 =
      Inr ([1 / 2, - 1 / 4], 44100)"
    by (simp add: demo_libs_def)
  have w1: "waveshow demo_libs [1 / 2, - 1 / 4] 44100 = Inr ()"
    by (simp add: demo_libs_def)
  have 2: "snd (configure_effects demo_libs untouched_page (read_flags untouched_page) 44100) =
      Inr ?b"
    by (simp add: configure_effects_returns_iff plugins_accepted_def assembled_board_def
        read_flags_def untouched_page_def selected_gain_def demo_libs_def)
  have 3: "process demo_libs ?b [1 / 2, - 1 / 4] = Inr ([1 / 4, - 1 / 8], [1 / 2, - 1 / 4])"
    by (simp add: demo_libs_def)
  have w2: "waveshow demo_libs [1 / 4, - 1 / 8] 44100 = Inr ()"
    by (simp add: demo_libs_def)
  have 123: "librosa_load demo_libs (chosen_source untouched_page) 44100 =
      Inr ([1 / 2, - 1 / 4], 44100)
      \<and> waveshow demo_libs [1 / 2, - 1 / 4] 44100 = Inr ()
      \<and> snd (configure_effects demo_libs untouched_page (read_flags untouched_page) 44100) =
          Inr ?b
      \<and> process demo_libs ?b [1 / 2, - 1 / 4] = Inr ([1 / 4, - 1 / 8], [1 / 2, - 1 / 4])
      \<and> waveshow demo_libs [1 / 4, - 1 / 8] 44100 = Inr ()"
    by (intro conjI) (rule 1 w1 2 3 w2)+
  note t = normalization_never_applied [of "[]" demo_libs untouched_page]
  note n = t [THEN conjunct2, THEN conjunct2, THEN conjunct2, THEN conjunct1]
  note d = t [THEN conjunct2, THEN conjunct2, THEN conjunct2, THEN conjunct2, THEN conjunct2,
      THEN spec, THEN spec, THEN spec, THEN spec, THEN spec, THEN mp, OF 123]
  show ?thesis
    by (intro conjI) (rule 1 w1 3 w2 n d)+
qed

end
